theory Spec2Isabelle
  imports Main "HOL-Library.Char_ord" "HOL-Library.List_Lexorder"
begin

section \<open>Errors and results\<close>

text \<open>
  Go functions return an \<open>error\<close> beside their value; the model returns a sum, with
  \<open>Inl\<close> for the error. A function that can also panic returns an \<open>outcome\<close>.
\<close>

datatype go_error =
    ErrorString string
  | JSONError
  | ParseError
  | UnsupportedTypeError
  | TimeRangeError
  | URLError
  | TransportError string
  | RemoteError string
  | ReadError string

datatype 'a outcome = Ok 'a | Err go_error | Panic

definition bindE :: "'e + 'a \<Rightarrow> ('a \<Rightarrow> 'e + 'b) \<Rightarrow> 'e + 'b" where
  "bindE m f = (case m of Inl e \<Rightarrow> Inl e | Inr x \<Rightarrow> f x)"

section \<open>Time values and the timestamp layout (contracts.go, LangsmithTime)\<close>

text \<open>
  A \<open>time.Time\<close> is modelled by what its accessors return: the calendar date and clock
  reading in the value's own location, the nanosecond within the second, and the
  location's offset from UTC in seconds. \<open>valid_Time\<close> holds of every reading a Go
  time value can give. The zero value of \<open>time.Time\<close> is January 1 of year 1, UTC.
\<close>

record Time =
  Year :: int
  Month :: nat
  Day :: nat
  Hour :: nat
  Minute :: nat
  Second :: nat
  Nanosecond :: nat
  ZoneOffset :: int

definition isLeap :: "int \<Rightarrow> bool" where
  "isLeap year = (year mod 4 = 0 \<and> (year mod 400 = 0 \<or> year mod 100 \<noteq> 0))"

definition daysIn :: "nat \<Rightarrow> int \<Rightarrow> nat" where
  "daysIn m year =
     (if m = 2 \<and> isLeap year then 29
      else [31, 28, 31, 30, 31, 30, 31, 31, 30, 31, 30, 31] ! (m - 1))"

definition valid_Time :: "Time \<Rightarrow> bool" where
  "valid_Time t =
     (1 \<le> Month t \<and> Month t \<le> 12 \<and> 1 \<le> Day t \<and> Day t \<le> daysIn (Month t) (Year t) \<and>
      Hour t < 24 \<and> Minute t < 60 \<and> Second t < 60 \<and> Nanosecond t < 1000000000)"

definition zero_Time :: Time where
  "zero_Time = \<lparr>Year = 1, Month = 1, Day = 1, Hour = 0, Minute = 0, Second = 0,
                 Nanosecond = 0, ZoneOffset = 0\<rparr>"

text \<open>\<open>t.Truncate(time.Second)\<close>: the nanoseconds are dropped, the location is kept.\<close>

definition Truncate_Second :: "Time \<Rightarrow> Time" where
  "Truncate_Second t = t\<lparr>Nanosecond := 0\<rparr>"

text \<open>
  \<open>t.Unix()\<close>: seconds since 1970-01-01T00:00:00Z. Two time values are the same instant
  (\<open>t.Equal(u)\<close>) when their Unix seconds and nanoseconds agree.
\<close>

definition daysSinceEpoch :: "int \<Rightarrow> nat \<Rightarrow> nat \<Rightarrow> int" where
  "daysSinceEpoch y m d =
     (let y' = (if m \<le> 2 then y - 1 else y);
          era = y' div 400;
          yoe = y' - era * 400;
          mp = (if m \<le> 2 then int m + 9 else int m - 3);
          doy = (153 * mp + 2) div 5 + int d - 1;
          doe = yoe * 365 + yoe div 4 - yoe div 100 + doy
      in era * 146097 + doe - 719468)"

definition Unix :: "Time \<Rightarrow> int" where
  "Unix t = daysSinceEpoch (Year t) (Month t) (Day t) * 86400 + int (Hour t) * 3600 +
            int (Minute t) * 60 + int (Second t) - ZoneOffset t"

definition Equal :: "Time \<Rightarrow> Time \<Rightarrow> bool" where
  "Equal t u = (Unix t = Unix u \<and> Nanosecond t = Nanosecond u)"

subsection \<open>Formatting\<close>

definition langsmithTimeFormat :: string where
  "langsmithTimeFormat = ''2006-01-02T15:04:05''"

definition digit :: "nat \<Rightarrow> char" where
  "digit n = ''0123456789'' ! n"

function utoa :: "nat \<Rightarrow> string" where
  "utoa n = (if n < 10 then [digit n] else utoa (n div 10) @ [digit (n mod 10)])"
  by pat_completeness auto
termination
  by (relation "measure id") auto

declare utoa.simps [simp del]

text \<open>
  \<open>appendInt(b, x, width)\<close> of package time: a minus sign for a negative number, then
  the decimal digits padded with zeros to at least \<open>width\<close> digits.
\<close>

definition appendInt :: "int \<Rightarrow> nat \<Rightarrow> string" where
  "appendInt x width =
     (let ds = utoa (nat \<bar>x\<bar>)
      in (if x < 0 then ''-'' else []) @ replicate (width - length ds) (CHR ''0'') @ ds)"

text \<open>
  \<open>t.Format(langsmithTimeFormat)\<close>: the layout's chunks are the four-digit year,
  zero-padded month, day, hour, minute and second, with the literals between them.
\<close>

definition Format :: "Time \<Rightarrow> string" where
  "Format t =
     appendInt (Year t) 4 @ ''-'' @ appendInt (int (Month t)) 2 @ ''-'' @
     appendInt (int (Day t)) 2 @ ''T'' @ appendInt (int (Hour t)) 2 @ '':'' @
     appendInt (int (Minute t)) 2 @ '':'' @ appendInt (int (Second t)) 2"

subsection \<open>Parsing\<close>

definition isDigitChar :: "char \<Rightarrow> bool" where
  "isDigitChar c = (48 \<le> (of_char c :: nat) \<and> (of_char c :: nat) \<le> 57)"

definition digitVal :: "char \<Rightarrow> nat" where
  "digitVal c = of_char c - 48"

definition isDigit :: "string \<Rightarrow> nat \<Rightarrow> bool" where
  "isDigit s i = (i < length s \<and> isDigitChar (s ! i))"

text \<open>\<open>atoi\<close> as package time calls it here: on text that holds digits only.\<close>

definition atoi :: "string \<Rightarrow> nat option" where
  "atoi s = (if list_all isDigitChar s then Some (fold (\<lambda>c n. 10 * n + digitVal c) s 0)
             else None)"

definition getnum :: "string \<Rightarrow> bool \<Rightarrow> go_error + (nat \<times> string)" where
  "getnum s fixed =
     (if \<not> isDigit s 0 then Inl ParseError
      else if \<not> isDigit s 1 then
        (if fixed then Inl ParseError else Inr (digitVal (s ! 0), drop 1 s))
      else Inr (digitVal (s ! 0) * 10 + digitVal (s ! 1), drop 2 s))"

text \<open>\<open>skip(value, prefix)\<close> for a literal of the layout (none of them holds a space).\<close>

fun skip :: "string \<Rightarrow> string \<Rightarrow> go_error + string" where
  "skip v [] = Inr v"
| "skip [] (p # ps) = Inl ParseError"
| "skip (c # cs) (p # ps) = (if c = p then skip cs ps else Inl ParseError)"

definition parse_year :: "string \<Rightarrow> go_error + (int \<times> string)" where
  "parse_year v =
     (if length v < 4 \<or> \<not> isDigit v 0 then Inl ParseError
      else (case atoi (take 4 v) of
              None \<Rightarrow> Inl ParseError
            | Some y \<Rightarrow> Inr (int y, drop 4 v)))"

text \<open>
  After the seconds, \<open>time.Parse\<close> accepts a fractional second the layout does not
  name: a period or comma followed by digits, of which at most nine count.
\<close>

definition commaOrPeriod :: "char \<Rightarrow> bool" where
  "commaOrPeriod c = (c = CHR ''.'' \<or> c = CHR '','')"

definition parse_fraction :: "string \<Rightarrow> go_error + (nat \<times> string)" where
  "parse_fraction v =
     (if 2 \<le> length v \<and> commaOrPeriod (v ! 0) \<and> isDigit v 1 then
        (let ds = takeWhile isDigitChar (tl v);
             counted = take 9 ds
         in (case atoi counted of
               None \<Rightarrow> Inl ParseError
             | Some ns \<Rightarrow> Inr (ns * 10 ^ (9 - length counted), drop (1 + length ds) v)))
      else Inr (0, v))"

text \<open>
  \<open>time.Parse(langsmithTimeFormat, value)\<close>. The result is in UTC, since the layout
  names no zone. Every failure of \<open>time.Parse\<close> is a \<open>*time.ParseError\<close>.
\<close>

definition Parse :: "string \<Rightarrow> go_error + Time" where
  "Parse v0 =
     bindE (parse_year v0) (\<lambda>(year, v1).
     bindE (skip v1 ''-'') (\<lambda>v2.
     bindE (getnum v2 True) (\<lambda>(month, v3).
       if month = 0 \<or> 12 < month then Inl ParseError else
     bindE (skip v3 ''-'') (\<lambda>v4.
     bindE (getnum v4 True) (\<lambda>(day, v5).
     bindE (skip v5 ''T'') (\<lambda>v6.
     bindE (getnum v6 False) (\<lambda>(hour, v7).
       if 24 \<le> hour then Inl ParseError else
     bindE (skip v7 '':'') (\<lambda>v8.
     bindE (getnum v8 True) (\<lambda>(minute, v9).
       if 60 \<le> minute then Inl ParseError else
     bindE (skip v9 '':'') (\<lambda>v10.
     bindE (getnum v10 True) (\<lambda>(sec, v11).
       if 60 \<le> sec then Inl ParseError else
     bindE (parse_fraction v11) (\<lambda>(nsec, v12).
       if v12 \<noteq> [] then Inl ParseError
       else if day < 1 \<or> daysIn month year < day then Inl ParseError
       else Inr \<lparr>Year = year, Month = month, Day = day, Hour = hour, Minute = minute,
                 Second = sec, Nanosecond = nsec, ZoneOffset = 0\<rparr>))))))))))))"

section \<open>JSON text (encoding/json)\<close>

subsection \<open>UTF-8\<close>

definition cont :: "nat \<Rightarrow> bool" where
  "cont b = (128 \<le> b \<and> b \<le> 191)"

text \<open>
  The length of the UTF-8 sequence that starts the text when \<open>utf8.DecodeRune\<close>
  accepts it, and 0 when it returns \<open>RuneError\<close> with width 1.
\<close>

definition DecodeRune_size :: "string \<Rightarrow> nat" where
  "DecodeRune_size s =
     (let b = (\<lambda>i. if i < length s then (of_char (s ! i) :: nat) else 0)
      in if s = [] then 0
         else if b 0 < 128 then 1
         else if 194 \<le> b 0 \<and> b 0 \<le> 223 then (if cont (b 1) then 2 else 0)
         else if b 0 = 224 then (if 160 \<le> b 1 \<and> b 1 \<le> 191 \<and> cont (b 2) then 3 else 0)
         else if b 0 = 237 then (if 128 \<le> b 1 \<and> b 1 \<le> 159 \<and> cont (b 2) then 3 else 0)
         else if 225 \<le> b 0 \<and> b 0 \<le> 239 then (if cont (b 1) \<and> cont (b 2) then 3 else 0)
         else if b 0 = 240 then
           (if 144 \<le> b 1 \<and> b 1 \<le> 191 \<and> cont (b 2) \<and> cont (b 3) then 4 else 0)
         else if 241 \<le> b 0 \<and> b 0 \<le> 243 then
           (if cont (b 1) \<and> cont (b 2) \<and> cont (b 3) then 4 else 0)
         else if b 0 = 244 then
           (if 128 \<le> b 1 \<and> b 1 \<le> 143 \<and> cont (b 2) \<and> cont (b 3) then 4 else 0)
         else 0)"

definition ReplacementChar :: string where
  "ReplacementChar = [char_of (239 :: nat), char_of (191 :: nat), char_of (189 :: nat)]"

text \<open>\<open>utf8.EncodeRune\<close>: the bytes of a code point; U+FFFD for a surrogate or a
  value past U+10FFFF.\<close>

definition EncodeRune :: "nat \<Rightarrow> string" where
  "EncodeRune r =
     (if r < 128 then [char_of r]
      else if r < 2048 then [char_of (192 + r div 64), char_of (128 + r mod 64)]
      else if (55296 \<le> r \<and> r < 57344) \<or> 1114111 < r then ReplacementChar
      else if r < 65536 then
        [char_of (224 + r div 4096), char_of (128 + r div 64 mod 64), char_of (128 + r mod 64)]
      else [char_of (240 + r div 262144), char_of (128 + r div 4096 mod 64),
            char_of (128 + r div 64 mod 64), char_of (128 + r mod 64)])"

subsection \<open>Decoding a JSON string literal\<close>

definition isSpace :: "char \<Rightarrow> bool" where
  "isSpace c = (c = CHR '' '' \<or> c = CHR 0x09 \<or> c = CHR 0x0D \<or> c = CHR 0x0A)"

definition hexVal :: "char \<Rightarrow> nat option" where
  "hexVal c =
     (let n = (of_char c :: nat)
      in if 48 \<le> n \<and> n \<le> 57 then Some (n - 48)
         else if 97 \<le> n \<and> n \<le> 102 then Some (n - 87)
         else if 65 \<le> n \<and> n \<le> 70 then Some (n - 55)
         else None)"

text \<open>\<open>getu4\<close>: the value of \<open>\uXXXX\<close> at the start of the text, if there is one.\<close>

definition getu4 :: "string \<Rightarrow> nat option" where
  "getu4 s =
     (case s of
        b # u # h1 # h2 # h3 # h4 # _ \<Rightarrow>
          (if b = CHR 0x5C \<and> u = CHR ''u'' then
             (case (hexVal h1, hexVal h2, hexVal h3, hexVal h4) of
                (Some a, Some b, Some c, Some d) \<Rightarrow> Some (((a * 16 + b) * 16 + c) * 16 + d)
              | _ \<Rightarrow> None)
           else None)
      | _ \<Rightarrow> None)"

definition escapeChar :: "char \<Rightarrow> char option" where
  "escapeChar e =
     (if e = CHR 0x22 \<or> e = CHR 0x5C \<or> e = CHR ''/'' then Some e
      else if e = CHR ''b'' then Some (CHR 0x08)
      else if e = CHR ''f'' then Some (CHR 0x0C)
      else if e = CHR ''n'' then Some (CHR 0x0A)
      else if e = CHR ''r'' then Some (CHR 0x0D)
      else if e = CHR ''t'' then Some (CHR 0x09)
      else None)"

definition emit :: "string \<Rightarrow> (string \<times> string) option \<Rightarrow> (string \<times> string) option" where
  "emit xs r = (case r of None \<Rightarrow> None | Some (s, rest) \<Rightarrow> Some (xs @ s, rest))"

text \<open>
  The text after the opening quote of a string literal: the decoded string and what
  follows the closing quote, or \<open>None\<close> where the scanner reports a syntax error
  (a control character, a bad escape, no closing quote). The first argument counts the
  bytes still to copy of a UTF-8 sequence already accepted. As \<open>unquote\<close> of
  encoding/json does, a byte that starts no valid UTF-8 sequence and a surrogate
  escape without its pair become U+FFFD.
\<close>

fun unquote :: "nat \<Rightarrow> string \<Rightarrow> (string \<times> string) option" where
  "unquote k [] = None"
| "unquote k (c # cs) =
     (if 0 < k then emit [c] (unquote (k - 1) cs)
      else if c = CHR 0x22 then Some ([], cs)
      else if c = CHR 0x5C then
        (case cs of
           [] \<Rightarrow> None
         | e # es \<Rightarrow>
             if e = CHR ''u'' then
               (case es of
                  h1 # h2 # h3 # h4 # rest \<Rightarrow>
                    (case getu4 (c # cs) of
                       None \<Rightarrow> None
                     | Some rr \<Rightarrow>
                         if 55296 \<le> rr \<and> rr < 57344 then
                           (case rest of
                              b1 # b2 # b3 # b4 # b5 # b6 # rest' \<Rightarrow>
                                (case getu4 rest of
                                   None \<Rightarrow> emit ReplacementChar (unquote 0 rest)
                                 | Some rr1 \<Rightarrow>
                                     if rr < 56320 \<and> 56320 \<le> rr1 \<and> rr1 < 57344 then
                                       emit (EncodeRune ((rr - 55296) * 1024 + (rr1 - 56320) + 65536))
                                         (unquote 0 rest')
                                     else emit ReplacementChar (unquote 0 rest))
                            | _ \<Rightarrow> emit ReplacementChar (unquote 0 rest))
                         else emit (EncodeRune rr) (unquote 0 rest))
                | _ \<Rightarrow> None)
             else (case escapeChar e of
                     None \<Rightarrow> None
                   | Some x \<Rightarrow> emit [x] (unquote 0 es)))
      else if (of_char c :: nat) < 32 then None
      else if (of_char c :: nat) < 128 then emit [c] (unquote 0 cs)
      else (let n = DecodeRune_size (c # cs)
            in if n = 0 then emit ReplacementChar (unquote 0 cs)
               else emit [c] (unquote (n - 1) cs)))"

text \<open>The bytes a string literal holds as themselves: printable ASCII but the quote
  and the backslash.\<close>

definition plain :: "char \<Rightarrow> bool" where
  "plain c = (32 \<le> (of_char c :: nat) \<and> (of_char c :: nat) < 128 \<and> (of_char c :: nat) \<noteq> 34 \<and>
              (of_char c :: nat) \<noteq> 92)"

text \<open>
  \<open>json.Unmarshal(b, &s)\<close> for a string \<open>s\<close> that starts empty: a string literal sets
  \<open>s\<close>, the literal \<open>null\<close> leaves it empty, and any other input is an error (a
  \<open>SyntaxError\<close>, or an \<open>UnmarshalTypeError\<close> for a JSON value that is no string).
\<close>

definition json_Unmarshal_string :: "string \<Rightarrow> go_error + string" where
  "json_Unmarshal_string b =
     (let v = dropWhile isSpace b
      in case v of
           [] \<Rightarrow> Inl JSONError
         | c # cs \<Rightarrow>
             if c = CHR 0x22 then
               (case unquote 0 cs of
                  None \<Rightarrow> Inl JSONError
                | Some (s, rest) \<Rightarrow>
                    if dropWhile isSpace rest = [] then Inr s else Inl JSONError)
             else if take 4 v = ''null'' \<and> dropWhile isSpace (drop 4 v) = [] then Inr []
             else Inl JSONError)"

section \<open>LangsmithTime (contracts.go)\<close>

text \<open>\<open>MarshalJSON\<close>: the formatted time between double quotes; the error is always nil.\<close>

definition LangsmithTime_MarshalJSON :: "Time \<Rightarrow> go_error + string" where
  "LangsmithTime_MarshalJSON t = Inr ([CHR 0x22] @ Format t @ [CHR 0x22])"

text \<open>
  \<open>UnmarshalJSON\<close>: the bytes are decoded as a JSON string \<open>s\<close>, then \<open>s[:19]\<close> is
  parsed. The slice expression panics when \<open>s\<close> has fewer than 19 bytes.
\<close>

definition LangsmithTime_UnmarshalJSON :: "string \<Rightarrow> Time outcome" where
  "LangsmithTime_UnmarshalJSON b =
     (case json_Unmarshal_string b of
        Inl e \<Rightarrow> Err e
      | Inr s \<Rightarrow>
          if length s < 19 then Panic
          else (case Parse (take 19 s) of
                  Inl e \<Rightarrow> Err e
                | Inr t2 \<Rightarrow> Ok t2))"

section \<open>Encoding JSON (encoding/json)\<close>

definition hexDigit :: "nat \<Rightarrow> char" where
  "hexDigit n = ''0123456789abcdef'' ! n"

text \<open>
  The body of \<open>appendString\<close> with HTML escaping on, as \<open>json.Marshal\<close> runs it: the
  quote and the backslash get a backslash; backspace, form feed, newline, carriage
  return and tab their short escapes; every other control character and \<open><\<close>, \<open>>\<close>,
  \<open>&\<close> become \<open>\u00XX\<close>; a byte that starts no valid UTF-8 sequence becomes
  U+FFFD, written as its three bytes EF BF BD; U+2028 and U+2029 are escaped; everything
  else is copied. The first argument counts the bytes still to copy of a UTF-8
  sequence already accepted.
\<close>

fun appendString_body :: "nat \<Rightarrow> string \<Rightarrow> string" where
  "appendString_body k [] = []"
| "appendString_body k (c # cs) =
     (let b = (of_char c :: nat)
      in if 0 < k then c # appendString_body (k - 1) cs
         else if b < 128 then
           (if c = CHR 0x5C \<or> c = CHR 0x22 then [CHR 0x5C, c]
            else if b = 8 then [CHR 0x5C, CHR ''b'']
            else if b = 12 then [CHR 0x5C, CHR ''f'']
            else if b = 10 then [CHR 0x5C, CHR ''n'']
            else if b = 13 then [CHR 0x5C, CHR ''r'']
            else if b = 9 then [CHR 0x5C, CHR ''t'']
            else if b < 32 \<or> c = CHR ''<'' \<or> c = CHR ''>'' \<or> c = CHR ''&'' then
              [CHR 0x5C, CHR ''u'', CHR ''0'', CHR ''0'', hexDigit (b div 16), hexDigit (b mod 16)]
            else [c]) @ appendString_body 0 cs
         else if DecodeRune_size (c # cs) = 0 then
           ReplacementChar @ appendString_body 0 cs
         else
           (case cs of
              c2 # c3 # rest \<Rightarrow>
                if b = 226 \<and> (of_char c2 :: nat) = 128 \<and>
                   ((of_char c3 :: nat) = 168 \<or> (of_char c3 :: nat) = 169) then
                  [CHR 0x5C, CHR ''u'', CHR ''2'', CHR ''0'', CHR ''2'',
                   hexDigit ((of_char c3 :: nat) mod 16)] @ appendString_body 0 rest
                else c # appendString_body (DecodeRune_size (c # cs) - 1) cs
            | _ \<Rightarrow> c # appendString_body (DecodeRune_size (c # cs) - 1) cs))"

definition appendString :: "string \<Rightarrow> string" where
  "appendString s = [CHR 0x22] @ appendString_body 0 s @ [CHR 0x22]"

fun join :: "string \<Rightarrow> string list \<Rightarrow> string" where
  "join sep [] = []"
| "join sep [x] = x"
| "join sep (x # y # ys) = x @ sep @ join sep (y # ys)"

definition itoa :: "int \<Rightarrow> string" where
  "itoa i = (if i < 0 then ''-'' else []) @ utoa (nat \<bar>i\<bar>)"

text \<open>
  The dynamic values a \<open>map[string]any\<close> or an \<open>any\<close> holds in this model: nil (also a
  nil slice or map), booleans, integers, strings, slices, maps with string keys, and a
  channel, which stands for the values \<open>json.Marshal\<close> refuses.
\<close>

datatype goval =
    GNil
  | GBool bool
  | GInt int
  | GString string
  | GSlice "goval list"
  | GMap "(string \<times> goval) list"
  | GChan

fun supported :: "goval \<Rightarrow> bool" where
  "supported GChan = False"
| "supported (GSlice xs) = list_all supported xs"
| "supported (GMap kvs) = list_all (\<lambda>kv. supported (snd kv)) kvs"
| "supported v = True"

text \<open>The text \<open>json.Marshal\<close> writes for a supported value; a map's keys are sorted.\<close>

fun render :: "goval \<Rightarrow> string" where
  "render GNil = ''null''"
| "render (GBool b) = (if b then ''true'' else ''false'')"
| "render (GInt i) = itoa i"
| "render (GString s) = appendString s"
| "render (GSlice xs) = ''['' @ join '','' (map render xs) @ '']''"
| "render (GMap kvs) =
     ''{'' @ join '','' (map snd (sort_key fst
              (map (\<lambda>kv. (fst kv, appendString (fst kv) @ '':'' @ render (snd kv))) kvs))) @ ''}''"
| "render GChan = []"

definition json_Marshal :: "goval \<Rightarrow> go_error + string" where
  "json_Marshal v = (if supported v then Inr (render v) else Inl UnsupportedTypeError)"

text \<open>A \<open>[]string\<close> as a dynamic value: a nil slice is encoded as \<open>null\<close>.\<close>

definition strings :: "string list option \<Rightarrow> goval" where
  "strings xs = (case xs of None \<Rightarrow> GNil | Some ys \<Rightarrow> GSlice (map GString ys))"

section \<open>The standard encoding of time.Time\<close>

text \<open>
  \<open>time.Time.MarshalJSON\<close>: RFC 3339 with nanoseconds, trailing zeros of the fraction
  removed, \<open>Z\<close> for offset zero and \<open>+hh:mm\<close> otherwise; an error for a year outside
  0..9999 or a zone hour outside 0..23.
\<close>

definition appendNano :: "nat \<Rightarrow> string" where
  "appendNano nanosec =
     (if nanosec = 0 then []
      else ''.'' @ rev (dropWhile (\<lambda>c. c = CHR ''0'') (rev (appendInt (int nanosec) 9))))"

definition appendFormatRFC3339 :: "Time \<Rightarrow> string" where
  "appendFormatRFC3339 t =
     Format t @ appendNano (Nanosecond t) @
     (if ZoneOffset t = 0 then ''Z''
      else (let zone = (if ZoneOffset t < 0 then - ((- ZoneOffset t) div 60)
                        else ZoneOffset t div 60)
            in (if zone < 0 then ''-'' else ''+'') @ appendInt (\<bar>zone\<bar> div 60) 2 @ '':'' @
               appendInt (\<bar>zone\<bar> mod 60) 2))"

definition time_MarshalJSON :: "Time \<Rightarrow> go_error + string" where
  "time_MarshalJSON t =
     (if Year t < 0 \<or> 9999 < Year t then Inl TimeRangeError
      else if ZoneOffset t \<noteq> 0 \<and> 24 \<le> \<bar>ZoneOffset t\<bar> div 3600 then Inl TimeRangeError
      else Inr ([CHR 0x22] @ appendFormatRFC3339 t @ [CHR 0x22]))"

section \<open>Timestamp fields of the data model (contracts.go)\<close>

text \<open>
  Every struct field of contracts.go that holds a time, with its struct, its JSON key
  and its declared type. (\<open>Example.ModifiedAt\<close> is a plain string and is not listed.)
\<close>

datatype time_type = Time_Time | LangsmithTime | Pointer time_type

definition timestamp_fields :: "(string \<times> string \<times> time_type) list" where
  "timestamp_fields =
     [(''RunPayload'', ''start_time'', Time_Time),
      (''RunPayload'', ''end_time'', Time_Time),
      (''SimplePayload'', ''start_time'', Time_Time),
      (''SimplePayload'', ''end_time'', Time_Time),
      (''PostPayload'', ''start_time'', Time_Time),
      (''PatchPayload'', ''end_time'', Time_Time),
      (''Dataset'', ''created_at'', Time_Time),
      (''Dataset'', ''modified_at'', Time_Time),
      (''Dataset'', ''last_session_start_time'', Pointer Time_Time),
      (''Experiment'', ''experiment_start_time'', LangsmithTime),
      (''Experiment'', ''experiment_end_time'', LangsmithTime),
      (''ExperimentScore'', ''created_at'', LangsmithTime),
      (''ExperimentScore'', ''modified_at'', LangsmithTime),
      (''Result'', ''start_time'', LangsmithTime),
      (''Result'', ''end_time'', LangsmithTime),
      (''Example'', ''created_at'', Pointer LangsmithTime),
      (''Run'', ''start_time'', Pointer LangsmithTime),
      (''Run'', ''end_time'', Pointer LangsmithTime),
      (''ComparativeExperimentRequest'', ''created_at'', LangsmithTime),
      (''ComparativeExperimentRequest'', ''modified_at'', LangsmithTime),
      (''ComparativeExperiment'', ''created_at'', LangsmithTime),
      (''ComparativeExperiment'', ''modified_at'', LangsmithTime),
      (''Feedback'', ''created_at'', LangsmithTime),
      (''Feedback'', ''modified_at'', LangsmithTime),
      (''TracerSessionRequest'', ''start_time'', LangsmithTime),
      (''TracerSessionRequest'', ''end_time'', LangsmithTime),
      (''TracerSessionUpdate'', ''end_time'', LangsmithTime)]"

definition field_type :: "string \<Rightarrow> string \<Rightarrow> time_type option" where
  "field_type struct key = map_of (map (\<lambda>(s, k, ty). ((s, k), ty)) timestamp_fields) (struct, key)"

text \<open>How \<open>json.Marshal\<close> encodes a time held by a field of the given type (through a
  pointer that is not nil, the value it points to).\<close>

fun encode_time :: "time_type \<Rightarrow> Time \<Rightarrow> go_error + string" where
  "encode_time Time_Time t = time_MarshalJSON t"
| "encode_time LangsmithTime t = LangsmithTime_MarshalJSON t"
| "encode_time (Pointer ty) t = encode_time ty t"

fun is_LangsmithTime :: "time_type \<Rightarrow> bool" where
  "is_LangsmithTime Time_Time = False"
| "is_LangsmithTime LangsmithTime = True"
| "is_LangsmithTime (Pointer ty) = is_LangsmithTime ty"

definition encode_timestamp_field :: "string \<Rightarrow> string \<Rightarrow> Time \<Rightarrow> (go_error + string) option" where
  "encode_timestamp_field struct key t = map_option (\<lambda>ty. encode_time ty t) (field_type struct key)"

text \<open>The fixed wire format: \<open>YYYY-MM-DDTHH:MM:SS\<close>, 19 characters, no zone suffix.\<close>

definition wire_format :: "string \<Rightarrow> bool" where
  "wire_format s =
     list_all2 (\<lambda>p c. if p = CHR ''d'' then isDigitChar c else c = p) ''dddd-dd-ddTdd:dd:dd'' s"

section \<open>Encoding a struct: omitempty (contracts.go, TracerSessionRequest)\<close>

text \<open>
  The kinds of field \<open>TracerSessionRequest\<close> has: a string, a \<open>LangsmithTime\<close> (a struct
  with its own \<open>MarshalJSON\<close>) and a \<open>map[string]any\<close>, which may be nil.
\<close>

datatype field_value =
    FString string
  | FTime Time
  | FMap "(string \<times> goval) list option"

text \<open>
  \<open>isEmptyValue\<close> of encoding/json: a string or a map is empty when its length is 0;
  a struct is never empty.
\<close>

fun isEmptyValue :: "field_value \<Rightarrow> bool" where
  "isEmptyValue (FString s) = (s = [])"
| "isEmptyValue (FTime t) = False"
| "isEmptyValue (FMap None) = True"
| "isEmptyValue (FMap (Some kvs)) = (kvs = [])"

fun encode_value :: "field_value \<Rightarrow> go_error + string" where
  "encode_value (FString s) = Inr (appendString s)"
| "encode_value (FTime t) = LangsmithTime_MarshalJSON t"
| "encode_value (FMap None) = Inr ''null''"
| "encode_value (FMap (Some kvs)) = json_Marshal (GMap kvs)"

text \<open>
  The struct encoder: the fields in declaration order, each given by its JSON key, its
  omitempty option and its value; a field with omitempty whose value is empty is
  skipped. The result is the list of members written.
\<close>

fun encode_fields :: "(string \<times> bool \<times> field_value) list \<Rightarrow> go_error + string list" where
  "encode_fields [] = Inr []"
| "encode_fields ((key, omitempty, v) # fs) =
     (if omitempty \<and> isEmptyValue v then encode_fields fs
      else bindE (encode_value v) (\<lambda>enc.
           bindE (encode_fields fs) (\<lambda>rest.
           Inr (([CHR 0x22] @ key @ [CHR 0x22] @ '':'' @ enc) # rest))))"

definition encode_struct :: "(string \<times> bool \<times> field_value) list \<Rightarrow> go_error + string" where
  "encode_struct fs = bindE (encode_fields fs) (\<lambda>ms. Inr (''{'' @ join '','' ms @ ''}''))"

record TracerSessionRequest =
  TSR_ID :: string
  TSR_StartTime :: Time
  TSR_EndTime :: Time
  TSR_Extra :: "(string \<times> goval) list option"
  TSR_Name :: string
  TSR_Description :: string
  TSR_DefaultDatasetID :: string
  TSR_ReferenceDatasetID :: string
  TSR_TraceTier :: string

text \<open>The fields of \<open>TracerSessionRequest\<close> with their tags: every one has omitempty.\<close>

definition TracerSessionRequest_fields ::
    "TracerSessionRequest \<Rightarrow> (string \<times> bool \<times> field_value) list" where
  "TracerSessionRequest_fields r =
     [(''id'', True, FString (TSR_ID r)),
      (''start_time'', True, FTime (TSR_StartTime r)),
      (''end_time'', True, FTime (TSR_EndTime r)),
      (''extra'', True, FMap (TSR_Extra r)),
      (''name'', True, FString (TSR_Name r)),
      (''description'', True, FString (TSR_Description r)),
      (''default_dataset_id'', True, FString (TSR_DefaultDatasetID r)),
      (''reference_dataset_id'', True, FString (TSR_ReferenceDatasetID r)),
      (''trace_tier'', True, FString (TSR_TraceTier r))]"

definition Marshal_TracerSessionRequest :: "TracerSessionRequest \<Rightarrow> go_error + string" where
  "Marshal_TracerSessionRequest r = encode_struct (TracerSessionRequest_fields r)"

section \<open>Multipart upload (contracts.go, DatasetCSV.ToMultiPart)\<close>

record DatasetCSV =
  File :: string
  InputKeys :: "string list"
  Name :: string
  DataType :: string
  OutputKeys :: "string list"
  Description :: string

text \<open>
  A \<open>multipart.Writer\<close> over a byte buffer, by the parts written so far. The boundary
  is drawn at random by \<open>multipart.NewWriter\<close> (sixty hexadecimal digits) and is a
  parameter here. Writing to a byte buffer returns no error, so none of the writer's
  operations does; the error checks of the source stay in the model as they are.
\<close>

datatype part = FormFile string string string | FormField string string

record Writer =
  boundary :: string
  parts :: "part list"

definition NewWriter :: "string \<Rightarrow> Writer" where
  "NewWriter b = \<lparr>boundary = b, parts = []\<rparr>"

definition CreateFormFile :: "Writer \<Rightarrow> string \<Rightarrow> string \<Rightarrow> go_error + Writer" where
  "CreateFormFile mw fieldname filename = Inr (mw\<lparr>parts := parts mw @ [FormFile fieldname filename []]\<rparr>)"

text \<open>\<open>Write\<close> on the writer of the part created last.\<close>

definition part_Write :: "Writer \<Rightarrow> string \<Rightarrow> go_error + Writer" where
  "part_Write mw bytes =
     (case rev (parts mw) of
        [] \<Rightarrow> Inr mw
      | FormFile n f c # ps \<Rightarrow> Inr (mw\<lparr>parts := rev (FormFile n f (c @ bytes) # ps)\<rparr>)
      | FormField n c # ps \<Rightarrow> Inr (mw\<lparr>parts := rev (FormField n (c @ bytes) # ps)\<rparr>))"

definition WriteField :: "Writer \<Rightarrow> string \<Rightarrow> string \<Rightarrow> go_error + Writer" where
  "WriteField mw fieldname v =
     part_Write (mw\<lparr>parts := parts mw @ [FormField fieldname []]\<rparr>) v"

text \<open>The loops \<open>for _, key := range keys { mw.WriteField(name, key) }\<close>.\<close>

fun WriteFields :: "Writer \<Rightarrow> string \<Rightarrow> string list \<Rightarrow> go_error + Writer" where
  "WriteFields mw fieldname [] = Inr mw"
| "WriteFields mw fieldname (key # keys) =
     bindE (WriteField mw fieldname key) (\<lambda>mw'. WriteFields mw' fieldname keys)"

text \<open>The bytes in the buffer after \<open>Close\<close>, and \<open>FormDataContentType\<close>.\<close>

definition part_bytes :: "part \<Rightarrow> string" where
  "part_bytes p =
     (case p of
        FormFile n f c \<Rightarrow>
          ''Content-Disposition: form-data; name='' @ [CHR 0x22] @ n @ [CHR 0x22] @
          ''; filename='' @ [CHR 0x22] @ f @ [CHR 0x22] @ [CHR 0x0D, CHR 0x0A] @
          ''Content-Type: application/octet-stream'' @ [CHR 0x0D, CHR 0x0A] @
          [CHR 0x0D, CHR 0x0A] @ c
      | FormField n c \<Rightarrow>
          ''Content-Disposition: form-data; name='' @ [CHR 0x22] @ n @ [CHR 0x22] @
          [CHR 0x0D, CHR 0x0A] @ [CHR 0x0D, CHR 0x0A] @ c)"

definition Bytes :: "Writer \<Rightarrow> string" where
  "Bytes mw =
     join [CHR 0x0D, CHR 0x0A]
       (map (\<lambda>p. ''--'' @ boundary mw @ [CHR 0x0D, CHR 0x0A] @ part_bytes p) (parts mw)) @
     [CHR 0x0D, CHR 0x0A] @ ''--'' @ boundary mw @ ''--'' @ [CHR 0x0D, CHR 0x0A]"

definition FormDataContentType :: "Writer \<Rightarrow> string" where
  "FormDataContentType mw = ''multipart/form-data; boundary='' @ boundary mw"

text \<open>
  \<open>ToMultiPart\<close>, up to \<open>mw.Close()\<close>: the file part when \<open>File\<close> is not empty, one
  \<open>input_keys\<close> field per key, the name when not empty, the data type, one
  \<open>output_keys\<close> field per key, the description when not empty.
\<close>

definition ToMultiPart_writer :: "string \<Rightarrow> DatasetCSV \<Rightarrow> go_error + Writer" where
  "ToMultiPart_writer b d =
     bindE (if File d \<noteq> [] then
              bindE (CreateFormFile (NewWriter b) ''file'' ''dataset.csv'') (\<lambda>mw.
                part_Write mw (File d))
            else Inr (NewWriter b)) (\<lambda>mw1.
     bindE (WriteFields mw1 ''input_keys'' (InputKeys d)) (\<lambda>mw2.
     bindE (if Name d \<noteq> [] then WriteField mw2 ''name'' (Name d) else Inr mw2) (\<lambda>mw3.
     bindE (WriteField mw3 ''data_type'' (DataType d)) (\<lambda>mw4.
     bindE (WriteFields mw4 ''output_keys'' (OutputKeys d)) (\<lambda>mw5.
     (if Description d \<noteq> [] then WriteField mw5 ''description'' (Description d)
      else Inr mw5))))))"

definition ToMultiPart :: "string \<Rightarrow> DatasetCSV \<Rightarrow> go_error + (string \<times> string)" where
  "ToMultiPart b d = bindE (ToMultiPart_writer b d) (\<lambda>mw. Inr (Bytes mw, FormDataContentType mw))"

text \<open>The field name of a part.\<close>

fun part_name :: "part \<Rightarrow> string" where
  "part_name (FormField m v) = m"
| "part_name (FormFile m f c) = m"

section \<open>The dataset client (dataset.go)\<close>

definition BASE_URL :: string where
  "BASE_URL = ''https://api.smith.langchain.com/api/v1''"

record DatasetClient =
  APIKey :: string
  baseUrl :: string

text \<open>The process environment, and \<open>os.Getenv\<close>: the empty string for an unset variable.\<close>

type_synonym env = "string \<Rightarrow> string option"

definition Getenv :: "env \<Rightarrow> string \<Rightarrow> string" where
  "Getenv e k = (case e k of None \<Rightarrow> [] | Some v \<Rightarrow> v)"

definition NewDatasetClient :: "env \<Rightarrow> go_error + DatasetClient" where
  "NewDatasetClient e =
     (if Getenv e ''LANGSMITH_API_KEY'' = [] then Inl (ErrorString ''langsmith api key is required'')
      else (let url = (if Getenv e ''LANGSMITH_URL'' = [] then BASE_URL
                       else Getenv e ''LANGSMITH_URL'')
            in Inr \<lparr>APIKey = Getenv e ''LANGSMITH_API_KEY'', baseUrl = url @ ''/datasets''\<rparr>))"

subsection \<open>HTTP\<close>

record Request =
  Method :: string
  URL :: string
  Header :: "(string \<times> string) list"
  Body :: "string option"

record Response =
  StatusCode :: nat
  Status :: string
  ResponseBody :: "go_error + string"

text \<open>
  What lies outside the program: which URLs \<open>http.NewRequest\<close> accepts, what the
  network answers to a request (\<open>http.Client.Do\<close>), and how an error body decodes as
  \<open>{"detail": ...}\<close>. \<open>ResponseBody\<close> is what reading the body to its end gives.
\<close>

record world =
  url_ok :: "string \<Rightarrow> bool"
  RoundTrip :: "Request \<Rightarrow> go_error + Response"
  detail_of :: "string \<Rightarrow> string option"

text \<open>What an operation does beside returning: lines printed to standard output
  (\<open>fmt.Println\<close> of a string or of a request) and HTTP requests sent.\<close>

datatype event = Println string | PrintlnRequest Request | HTTP Request

definition NewRequest :: "world \<Rightarrow> string \<Rightarrow> string \<Rightarrow> string option \<Rightarrow> go_error + Request" where
  "NewRequest w method url body =
     (if url_ok w url then Inr \<lparr>Method = method, URL = url, Header = [], Body = body\<rparr>
      else Inl URLError)"

text \<open>
  \<open>req.Header.Set(k, v)\<close>: the key gets the one value. Go stores the key in its
  canonical spelling (\<open>X-Api-Key\<close>); header names are case-insensitive, and the model
  keeps the spelling of the source.
\<close>

definition Header_Set :: "Request \<Rightarrow> string \<Rightarrow> string \<Rightarrow> Request" where
  "Header_Set req k v = req\<lparr>Header := filter (\<lambda>kv. fst kv \<noteq> k) (Header req) @ [(k, v)]\<rparr>"

text \<open>
  Modelled from the spec: \<open>handleResponse\<close> is called by dataset.go and defined in a file
  that is not among the sources. The spec: any status code in 200..299 is success
  regardless of body; otherwise the body is decoded as \<open>{"detail": string}\<close> and an error
  carries that detail, falling back to the status line if the body does not parse.
\<close>

definition handleResponse :: "world \<Rightarrow> Response \<Rightarrow> go_error option" where
  "handleResponse w resp =
     (if 200 \<le> StatusCode resp \<and> StatusCode resp \<le> 299 then None
      else Some (RemoteError
             (case ResponseBody resp of
                Inl e \<Rightarrow> Status resp
              | Inr b \<Rightarrow> (case detail_of w b of None \<Rightarrow> Status resp | Some m \<Rightarrow> m))))"

text \<open>
  Modelled from the spec: \<open>Do\<close> of \<open>baseClient\<close> is called by dataset.go and defined in a
  file that is not among the sources. The spec: it builds an HTTP request with the
  given method and a JSON body (when non-empty), sets a fixed header carrying the API
  key, sends it and classifies the response; it performs no logging. The callers in
  dataset.go pass the whole URL as the first argument.
\<close>

definition Do :: "world \<Rightarrow> DatasetClient \<Rightarrow> string \<Rightarrow> string \<Rightarrow> string \<Rightarrow> unit outcome \<times> event list" where
  "Do w c url method jsonData =
     (case NewRequest w method url (if jsonData = [] then None else Some jsonData) of
        Inl e \<Rightarrow> (Err e, [])
      | Inr req0 \<Rightarrow>
          (let req = Header_Set req0 ''x-api-key'' (APIKey c)
           in case RoundTrip w req of
                Inl e \<Rightarrow> (Err e, [HTTP req])
              | Inr resp \<Rightarrow>
                  (case handleResponse w resp of
                     Some e \<Rightarrow> (Err e, [HTTP req])
                   | None \<Rightarrow> (Ok (), [HTTP req]))))"

text \<open>
  Modelled from the spec: \<open>PostForm\<close> of \<open>baseClient\<close> is called by dataset.go and
  defined in a file that is not among the sources. The spec: the same as \<open>Do\<close> for a
  pre-encoded multipart body with the caller's content type.
\<close>

definition PostForm :: "world \<Rightarrow> DatasetClient \<Rightarrow> string \<Rightarrow> string \<Rightarrow> string \<Rightarrow> unit outcome \<times> event list" where
  "PostForm w c url body contentType =
     (case NewRequest w ''POST'' url (Some body) of
        Inl e \<Rightarrow> (Err e, [])
      | Inr req0 \<Rightarrow>
          (let req = Header_Set (Header_Set req0 ''Content-Type'' contentType) ''x-api-key'' (APIKey c)
           in case RoundTrip w req of
                Inl e \<Rightarrow> (Err e, [HTTP req])
              | Inr resp \<Rightarrow>
                  (case handleResponse w resp of
                     Some e \<Rightarrow> (Err e, [HTTP req])
                   | None \<Rightarrow> (Ok (), [HTTP req]))))"

text \<open>
  The steps the reading operations of dataset.go share once the request is built:
  \<open>client.Do(req)\<close>, \<open>handleResponse(resp)\<close>, then the body read to its end.
\<close>

definition fetch :: "world \<Rightarrow> Request \<Rightarrow> string outcome \<times> event list" where
  "fetch w req =
     (case RoundTrip w req of
        Inl e \<Rightarrow> (Err e, [HTTP req])
      | Inr resp \<Rightarrow>
          (case handleResponse w resp of
             Some e \<Rightarrow> (Err e, [HTTP req])
           | None \<Rightarrow>
               (case ResponseBody resp of
                  Inl e \<Rightarrow> (Err e, [HTTP req])
                | Inr b \<Rightarrow> (Ok b, [HTTP req]))))"

definition decode :: "(string \<Rightarrow> go_error + 'r) \<Rightarrow> string outcome \<times> event list \<Rightarrow> 'r outcome \<times> event list" where
  "decode unmarshal r =
     (case r of
        (Ok b, evs) \<Rightarrow> (case unmarshal b of Inl e \<Rightarrow> (Err e, evs) | Inr x \<Rightarrow> (Ok x, evs))
      | (Err e, evs) \<Rightarrow> (Err e, evs)
      | (Panic, evs) \<Rightarrow> (Panic, evs))"

subsection \<open>The operations\<close>

text \<open>
  \<open>json.Marshal\<close> of a typed request object and \<open>json.Unmarshal\<close> into a typed result are
  parameters of the operations that call them: \<open>marshal\<close> gives the bytes or the error
  for an input, \<open>unmarshal\<close> the result or the error for a body. Each operation returns
  its result and the events it caused, in order.
\<close>

definition CreateDataset ::
    "('a \<Rightarrow> go_error + string) \<Rightarrow> world \<Rightarrow> DatasetClient \<Rightarrow> 'a \<Rightarrow> unit outcome \<times> event list" where
  "CreateDataset marshal w d input =
     (case marshal input of
        Inl e \<Rightarrow> (Err e, [])
      | Inr jsonData \<Rightarrow> Do w d (baseUrl d) ''POST'' jsonData)"

text \<open>\<open>UploadCSV\<close>: a nil \<open>input\<close> panics in \<open>ToMultiPart\<close>, at the first field read.\<close>

definition UploadCSV ::
    "string \<Rightarrow> world \<Rightarrow> DatasetClient \<Rightarrow> DatasetCSV option \<Rightarrow> unit outcome \<times> event list" where
  "UploadCSV bnd w d input =
     (case input of
        None \<Rightarrow> (Panic, [])
      | Some csv \<Rightarrow>
          (case ToMultiPart bnd csv of
             Inl e \<Rightarrow> (Err e, [])
           | Inr (body, contentType) \<Rightarrow> PostForm w d (baseUrl d @ ''/upload'') body contentType))"

definition UploadExperiment ::
    "('a \<Rightarrow> go_error + string) \<Rightarrow> world \<Rightarrow> DatasetClient \<Rightarrow> 'a \<Rightarrow> unit outcome \<times> event list" where
  "UploadExperiment marshal w d input =
     (case marshal input of
        Inl e \<Rightarrow> (Err e, [])
      | Inr jsonData \<Rightarrow> Do w d (baseUrl d @ ''/upload-experiment'') ''POST'' jsonData)"

definition ReadDataset :: "world \<Rightarrow> DatasetClient \<Rightarrow> string \<Rightarrow> string outcome \<times> event list" where
  "ReadDataset w d ident =
     (case NewRequest w ''GET'' (baseUrl d @ ''/'' @ ident) None of
        Inl e \<Rightarrow> (Err e, [])
      | Inr req0 \<Rightarrow> fetch w (Header_Set req0 ''x-api-key'' (APIKey d)))"

definition DownloadDatasetCsv :: "world \<Rightarrow> DatasetClient \<Rightarrow> string \<Rightarrow> string outcome \<times> event list" where
  "DownloadDatasetCsv w d ident =
     (case NewRequest w ''GET'' (baseUrl d @ ''/'' @ ident @ ''/csv'') None of
        Inl e \<Rightarrow> (Err e, [])
      | Inr req0 \<Rightarrow>
          (let req = Header_Set req0 ''x-api-key'' (APIKey d);
               r = fetch w req
           in (fst r, PrintlnRequest req # snd r)))"

definition GetExamples ::
    "(string \<Rightarrow> go_error + 'r) \<Rightarrow> world \<Rightarrow> DatasetClient \<Rightarrow> string \<Rightarrow> int \<Rightarrow> 'r outcome \<times> event list" where
  "GetExamples unmarshal w d datasetId offset =
     (case NewRequest w ''GET''
             (BASE_URL @ ''/examples?dataset='' @ datasetId @ ''&offset='' @ itoa offset) None of
        Inl e \<Rightarrow> (Err e, [])
      | Inr req0 \<Rightarrow> decode unmarshal (fetch w (Header_Set req0 ''x-api-key'' (APIKey d))))"

definition CreateExample ::
    "('a \<Rightarrow> go_error + string) \<Rightarrow> world \<Rightarrow> DatasetClient \<Rightarrow> 'a \<Rightarrow> unit outcome \<times> event list" where
  "CreateExample marshal w d example =
     (case marshal example of
        Inl e \<Rightarrow> (Err e, [])
      | Inr jsonData \<Rightarrow>
          (let r = Do w d (BASE_URL @ ''/examples'') ''POST'' jsonData
           in (fst r, Println jsonData # snd r)))"

definition CreateExamples ::
    "('a \<Rightarrow> go_error + string) \<Rightarrow> world \<Rightarrow> DatasetClient \<Rightarrow> 'a \<Rightarrow> unit outcome \<times> event list" where
  "CreateExamples marshal w d examples =
     (case marshal examples of
        Inl e \<Rightarrow> (Err e, [])
      | Inr jsonData \<Rightarrow> Do w d (BASE_URL @ ''/examples/bulk'') ''POST'' jsonData)"

definition GetExamplesWithRuns ::
    "(string \<Rightarrow> go_error + 'r) \<Rightarrow> world \<Rightarrow> DatasetClient \<Rightarrow> string \<Rightarrow> 'r outcome \<times> event list" where
  "GetExamplesWithRuns unmarshal w d datasetId =
     (let body = GMap [(''session_ids'', strings (Some [''58a7c5a2-c14e-42dc-936a-3af8e84777fa'']))]
      in case json_Marshal body of
           Inl e \<Rightarrow> (Err e, [])
         | Inr data \<Rightarrow>
             (case NewRequest w ''POST'' (baseUrl d @ ''/'' @ datasetId @ ''/runs'') (Some data) of
                Inl e \<Rightarrow> (Err e, [])
              | Inr req0 \<Rightarrow> decode unmarshal (fetch w (Header_Set req0 ''x-api-key'' (APIKey d)))))"

definition CreateComparativeExperiment ::
    "('a \<Rightarrow> go_error + string) \<Rightarrow> world \<Rightarrow> DatasetClient \<Rightarrow> 'a \<Rightarrow> unit outcome \<times> event list" where
  "CreateComparativeExperiment marshal w d input =
     (case marshal input of
        Inl e \<Rightarrow> (Err e, [])
      | Inr jsonData \<Rightarrow> Do w d (baseUrl d @ ''/comparative'') ''POST'' jsonData)"

definition ReadComparitiveExperiment ::
    "(string \<Rightarrow> go_error + 'r) \<Rightarrow> world \<Rightarrow> DatasetClient \<Rightarrow> string \<Rightarrow> string \<Rightarrow>
     'r outcome \<times> event list" where
  "ReadComparitiveExperiment unmarshal w d datasetId experimentId =
     (case NewRequest w ''GET''
             (baseUrl d @ ''/'' @ datasetId @ ''/comparative?id='' @ experimentId) None of
        Inl e \<Rightarrow> (Err e, [])
      | Inr req0 \<Rightarrow> decode unmarshal (fetch w (Header_Set req0 ''x-api-key'' (APIKey d))))"

text \<open>The two fields of \<open>QueryParams\<close> that \<open>QueryRuns\<close> reads.\<close>

record QueryParams =
  Select :: "string list option"
  Filter :: string

text \<open>\<open>QueryRuns\<close>: a nil \<open>queryParams\<close> panics where the body is built.\<close>

definition QueryRuns ::
    "(string \<Rightarrow> go_error + 'r) \<Rightarrow> world \<Rightarrow> DatasetClient \<Rightarrow> string list option \<Rightarrow> bool \<Rightarrow>
     QueryParams option \<Rightarrow> 'r outcome \<times> event list" where
  "QueryRuns unmarshal w d experimentIds isRoot queryParams =
     (case queryParams of
        None \<Rightarrow> (Panic, [])
      | Some qp \<Rightarrow>
          (let body = GMap [(''session'', strings experimentIds), (''root'', GBool isRoot),
                            (''select'', strings (Select qp)), (''filter'', GString (Filter qp))]
           in case json_Marshal body of
                Inl e \<Rightarrow> (Err e, [])
              | Inr data \<Rightarrow>
                  (case NewRequest w ''POST'' (BASE_URL @ ''/runs/query'') (Some data) of
                     Inl e \<Rightarrow> (Err e, [])
                   | Inr req0 \<Rightarrow>
                       decode unmarshal (fetch w (Header_Set req0 ''x-api-key'' (APIKey d))))))"

definition CreateFeedback ::
    "('a \<Rightarrow> go_error + string) \<Rightarrow> world \<Rightarrow> DatasetClient \<Rightarrow> 'a \<Rightarrow> unit outcome \<times> event list" where
  "CreateFeedback marshal w d input =
     (case marshal input of
        Inl e \<Rightarrow> (Err e, [])
      | Inr jsonData \<Rightarrow> Do w d (BASE_URL @ ''/feedback'') ''POST'' jsonData)"

definition CreateTracerSession ::
    "('a \<Rightarrow> go_error + string) \<Rightarrow> world \<Rightarrow> DatasetClient \<Rightarrow> 'a \<Rightarrow> unit outcome \<times> event list" where
  "CreateTracerSession marshal w d input =
     (case marshal input of
        Inl e \<Rightarrow> (Err e, [])
      | Inr jsonData \<Rightarrow> Do w d (BASE_URL @ ''/sessions'') ''POST'' jsonData)"

definition UpdateTracerSession ::
    "('a \<Rightarrow> go_error + string) \<Rightarrow> world \<Rightarrow> DatasetClient \<Rightarrow> string \<Rightarrow> 'a \<Rightarrow>
     unit outcome \<times> event list" where
  "UpdateTracerSession marshal w d sessionId input =
     (case marshal input of
        Inl e \<Rightarrow> (Err e, [])
      | Inr jsonData \<Rightarrow> Do w d (BASE_URL @ ''/sessions/'' @ sessionId) ''PATCH'' jsonData)"

text \<open>
  A transport for evaluation: it accepts every URL and answers every request with
  the given status code and body.
\<close>

definition mock_world :: "nat \<Rightarrow> string \<Rightarrow> world" where
  "mock_world code body =
     \<lparr>url_ok = (\<lambda>u. True),
      RoundTrip = (\<lambda>req. Inr \<lparr>StatusCode = code, Status = itoa (int code), ResponseBody = Inr body\<rparr>),
      detail_of = (\<lambda>b. None)\<rparr>"

text \<open>The requests among the events of an operation.\<close>

fun requests :: "event list \<Rightarrow> Request list" where
  "requests [] = []"
| "requests (HTTP r # evs) = r # requests evs"
| "requests (e # evs) = requests evs"

section \<open>Decimal digits\<close>

lemma bindE_simps: "bindE (Inr x) f = f x" "bindE (Inl e) f = Inl e"
  by (simp_all add: bindE_def)

lemma digit_code: "n < 10 \<Longrightarrow> (of_char (digit n) :: nat) = 48 + n"
proof -
  assume "n < 10"
  then consider "n = 0" | "n = 1" | "n = 2" | "n = 3" | "n = 4" | "n = 5" | "n = 6"
    | "n = 7" | "n = 8" | "n = 9" by atomize_elim arith
  then show ?thesis by cases (simp_all add: digit_def)
qed

lemma isDigitChar_digit: "n < 10 \<Longrightarrow> isDigitChar (digit n)"
  by (simp add: isDigitChar_def digit_code)

lemma digitVal_digit: "n < 10 \<Longrightarrow> digitVal (digit n) = n"
  by (simp add: digitVal_def digit_code)

lemma utoa_1: "n < 10 \<Longrightarrow> utoa n = [digit n]"
  by (subst utoa.simps) simp

lemma utoa_2: "10 \<le> n \<Longrightarrow> n < 100 \<Longrightarrow> utoa n = [digit (n div 10), digit (n mod 10)]"
  by (subst utoa.simps) (simp add: utoa_1)

lemma utoa_3: "100 \<le> n \<Longrightarrow> n < 1000 \<Longrightarrow>
    utoa n = [digit (n div 100), digit (n div 10 mod 10), digit (n mod 10)]"
proof -
  assume a: "100 \<le> n" "n < 1000"
  have "utoa n = utoa (n div 10) @ [digit (n mod 10)]"
    using a by (subst utoa.simps) simp
  moreover have "utoa (n div 10) = [digit (n div 10 div 10), digit (n div 10 mod 10)]"
    using a by (intro utoa_2) auto
  moreover have "n div 10 div 10 = n div 100"
    by (simp add: div_mult2_eq [symmetric])
  ultimately show ?thesis by simp
qed

lemma utoa_4: "1000 \<le> n \<Longrightarrow> n < 10000 \<Longrightarrow>
    utoa n = [digit (n div 1000), digit (n div 100 mod 10), digit (n div 10 mod 10), digit (n mod 10)]"
proof -
  assume a: "1000 \<le> n" "n < 10000"
  have "utoa n = utoa (n div 10) @ [digit (n mod 10)]"
    using a by (subst utoa.simps) simp
  moreover have "utoa (n div 10) = [digit (n div 10 div 100), digit (n div 10 div 10 mod 10), digit (n div 10 mod 10)]"
    using a by (intro utoa_3) auto
  moreover have "n div 10 div 100 = n div 1000" "n div 10 div 10 = n div 100"
    by (simp_all add: div_mult2_eq [symmetric])
  ultimately show ?thesis by simp
qed

lemma digit_0: "digit 0 = CHR ''0''"
  by (simp add: digit_def)

lemma replicate_123:
  "replicate (Suc 0) c = [c]" "replicate 2 c = [c, c]" "replicate 3 c = [c, c, c]"
  by (simp_all add: numeral_2_eq_2 numeral_3_eq_3)

lemma appendInt_2: "n < 100 \<Longrightarrow> appendInt (int n) 2 = [digit (n div 10), digit (n mod 10)]"
proof (cases "n < 10")
  case True
  then show ?thesis by (simp add: appendInt_def utoa_1 digit_0)
next
  case False
  assume "n < 100"
  with False show ?thesis by (simp add: appendInt_def utoa_2)
qed

lemma appendInt_4: "n < 10000 \<Longrightarrow>
    appendInt (int n) 4 =
      [digit (n div 1000), digit (n div 100 mod 10), digit (n div 10 mod 10), digit (n mod 10)]"
proof -
  assume n: "n < 10000"
  consider "n < 10" | "10 \<le> n" "n < 100" | "100 \<le> n" "n < 1000" | "1000 \<le> n"
    by atomize_elim arith
  then show ?thesis
  proof cases
    case 1 then show ?thesis by (simp add: appendInt_def utoa_1 digit_0 replicate_123)
  next
    case 2 then show ?thesis by (simp add: appendInt_def utoa_2 digit_0 replicate_123)
  next
    case 3 then show ?thesis by (simp add: appendInt_def utoa_3 digit_0 replicate_123)
  next
    case 4 with n show ?thesis by (simp add: appendInt_def utoa_4)
  qed
qed

lemma two_digits: "(n::nat) < 100 \<Longrightarrow> n div 10 < 10 \<and> n mod 10 < 10 \<and> n div 10 * 10 + n mod 10 = n"
  by arith

lemma four_digits:
  "(n::nat) < 10000 \<Longrightarrow> n div 1000 < 10 \<and> n div 100 mod 10 < 10 \<and> n div 10 mod 10 < 10 \<and> n mod 10 < 10 \<and>
     10 * (10 * (10 * (n div 1000) + n div 100 mod 10) + n div 10 mod 10) + n mod 10 = n"
proof -
  assume n: "n < 10000"
  define a b c r0 r1 r2 where "a = n div 10" and "b = n div 100" and "c = n div 1000"
    and "r0 = n mod 10" and "r1 = n div 10 mod 10" and "r2 = n div 100 mod 10"
  have e1: "n = 10 * a + r0" by (simp add: a_def r0_def)
  have "a div 10 = b" by (simp add: a_def b_def div_mult2_eq [symmetric])
  then have e2: "a = 10 * b + r1" using div_mult_mod_eq [of a 10] by (simp add: r1_def a_def)
  have "b div 10 = c" by (simp add: b_def c_def div_mult2_eq [symmetric])
  then have e3: "b = 10 * c + r2" using div_mult_mod_eq [of b 10] by (simp add: r2_def b_def)
  have c: "c < 10" using n by (simp add: c_def less_mult_imp_div_less)
  have "10 * (10 * (10 * c + r2) + r1) + r0 = n" using e1 e2 e3 by simp
  with c show ?thesis by (simp add: a_def b_def c_def r0_def r1_def r2_def)
qed

section \<open>Formatting and parsing a time\<close>

lemma getnum_digits:
  "a < 10 \<Longrightarrow> b < 10 \<Longrightarrow> getnum (digit a # digit b # rest) fixed = Inr (a * 10 + b, rest)"
  by (simp add: getnum_def isDigit_def isDigitChar_digit digitVal_digit)

lemma parse_year_digits:
  "a < 10 \<Longrightarrow> b < 10 \<Longrightarrow> c < 10 \<Longrightarrow> d < 10 \<Longrightarrow>
   parse_year (digit a # digit b # digit c # digit d # rest) =
     Inr (int (10 * (10 * (10 * a + b) + c) + d), rest)"
  by (simp add: parse_year_def isDigit_def isDigitChar_digit digitVal_digit atoi_def)

lemma parse_fraction_Nil: "parse_fraction [] = Inr (0, [])"
  by (simp add: parse_fraction_def)

lemma daysIn_le_31: "1 \<le> m \<Longrightarrow> m \<le> 12 \<Longrightarrow> daysIn m y \<le> 31"
proof -
  assume "1 \<le> m" "m \<le> 12"
  then consider "m = 1" | "m = 2" | "m = 3" | "m = 4" | "m = 5" | "m = 6" | "m = 7" | "m = 8"
    | "m = 9" | "m = 10" | "m = 11" | "m = 12"
    by atomize_elim arith
  then show ?thesis by cases (simp_all add: daysIn_def)
qed

lemma Format_explicit:
  assumes "valid_Time t" "0 \<le> Year t" "Year t \<le> 9999"
  shows "Format t =
    (let y = nat (Year t) in
     [digit (y div 1000), digit (y div 100 mod 10), digit (y div 10 mod 10), digit (y mod 10),
      CHR ''-'', digit (Month t div 10), digit (Month t mod 10),
      CHR ''-'', digit (Day t div 10), digit (Day t mod 10),
      CHR ''T'', digit (Hour t div 10), digit (Hour t mod 10),
      CHR '':'', digit (Minute t div 10), digit (Minute t mod 10),
      CHR '':'', digit (Second t div 10), digit (Second t mod 10)])"
proof -
  have y: "appendInt (Year t) 4 = (let y = nat (Year t) in
      [digit (y div 1000), digit (y div 100 mod 10), digit (y div 10 mod 10), digit (y mod 10)])"
    using assms appendInt_4 [of "nat (Year t)"] by (simp add: Let_def)
  have d: "Day t \<le> 31"
  proof -
    have "daysIn (Month t) (Year t) \<le> 31"
    proof -
      from assms(1) consider "Month t = 1" | "Month t = 2" | "Month t = 3" | "Month t = 4"
        | "Month t = 5" | "Month t = 6" | "Month t = 7" | "Month t = 8" | "Month t = 9"
        | "Month t = 10" | "Month t = 11" | "Month t = 12"
        unfolding valid_Time_def by atomize_elim arith
      then show ?thesis by cases (simp_all add: daysIn_def)
    qed
    with assms(1) show ?thesis by (simp add: valid_Time_def)
  qed
  from assms(1) d have
    "appendInt (int (Month t)) 2 = [digit (Month t div 10), digit (Month t mod 10)]"
    "appendInt (int (Day t)) 2 = [digit (Day t div 10), digit (Day t mod 10)]"
    "appendInt (int (Hour t)) 2 = [digit (Hour t div 10), digit (Hour t mod 10)]"
    "appendInt (int (Minute t)) 2 = [digit (Minute t div 10), digit (Minute t mod 10)]"
    "appendInt (int (Second t)) 2 = [digit (Second t div 10), digit (Second t mod 10)]"
    by (simp_all add: valid_Time_def appendInt_2)
  with y show ?thesis by (simp add: Format_def Let_def)
qed

lemma Parse_digits:
  assumes "y1 < 10" "y2 < 10" "y3 < 10" "y4 < 10" "m1 < 10" "m2 < 10" "d1 < 10" "d2 < 10"
    "h1 < 10" "h2 < 10" "i1 < 10" "i2 < 10" "s1 < 10" "s2 < 10"
  shows "Parse [digit y1, digit y2, digit y3, digit y4, CHR ''-'', digit m1, digit m2,
      CHR ''-'', digit d1, digit d2, CHR ''T'', digit h1, digit h2, CHR '':'', digit i1, digit i2,
      CHR '':'', digit s1, digit s2] =
    (let year = int (10 * (10 * (10 * y1 + y2) + y3) + y4); month = m1 * 10 + m2;
         day = d1 * 10 + d2; hour = h1 * 10 + h2; minute = i1 * 10 + i2; sec = s1 * 10 + s2
     in if month = 0 \<or> 12 < month then Inl ParseError
        else if 24 \<le> hour then Inl ParseError
        else if 60 \<le> minute then Inl ParseError
        else if 60 \<le> sec then Inl ParseError
        else if day < 1 \<or> daysIn month year < day then Inl ParseError
        else Inr \<lparr>Year = year, Month = month, Day = day, Hour = hour, Minute = minute,
                 Second = sec, Nanosecond = 0, ZoneOffset = 0\<rparr>)"
  using assms
  by (simp add: Parse_def bindE_def parse_year_digits getnum_digits parse_fraction_Nil Let_def)

lemma Parse_Format:
  assumes "valid_Time t" "0 \<le> Year t" "Year t \<le> 9999"
  shows "Parse (Format t) = Inr (t\<lparr>Nanosecond := 0, ZoneOffset := 0\<rparr>)"
proof -
  define y where "y = nat (Year t)"
  have y: "y < 10000" "int y = Year t" using assms by (simp_all add: y_def)
  have d: "Day t \<le> daysIn (Month t) (Year t)" "1 \<le> Day t" "1 \<le> Month t" "Month t \<le> 12"
    "Hour t < 24" "Minute t < 60" "Second t < 60"
    using assms(1) by (simp_all add: valid_Time_def)
  have d31: "Day t < 100" using d daysIn_le_31 [of "Month t" "Year t"] by simp
  have m: "Month t < 100" "Hour t < 100" "Minute t < 100" "Second t < 100" using d by simp_all
  note fd = four_digits [OF y(1)]
  note tm = two_digits [OF m(1)] and tday = two_digits [OF d31] and th = two_digits [OF m(2)]
    and ti = two_digits [OF m(3)] and ts = two_digits [OF m(4)]
  have "Parse (Format t) =
    Parse [digit (y div 1000), digit (y div 100 mod 10), digit (y div 10 mod 10), digit (y mod 10),
      CHR ''-'', digit (Month t div 10), digit (Month t mod 10),
      CHR ''-'', digit (Day t div 10), digit (Day t mod 10),
      CHR ''T'', digit (Hour t div 10), digit (Hour t mod 10),
      CHR '':'', digit (Minute t div 10), digit (Minute t mod 10),
      CHR '':'', digit (Second t div 10), digit (Second t mod 10)]"
    by (simp only: Format_explicit [OF assms] Let_def y_def)
  also have "\<dots> = Inr \<lparr>Year = Year t, Month = Month t, Day = Day t, Hour = Hour t,
      Minute = Minute t, Second = Second t, Nanosecond = 0, ZoneOffset = 0\<rparr>"
    apply (subst Parse_digits)
    using fd tm tday th ti ts apply simp_all[14]
    using fd tm tday th ti ts d y(2) apply (simp add: Let_def)
    done
  finally show ?thesis by simp
qed

lemma wire_format_Format:
  assumes "valid_Time t" "0 \<le> Year t" "Year t \<le> 9999"
  shows "wire_format (Format t)"
proof -
  define y where "y = nat (Year t)"
  have y: "y < 10000" using assms by (simp add: y_def)
  have d: "1 \<le> Month t" "Month t \<le> 12" "Day t \<le> daysIn (Month t) (Year t)"
    "Hour t < 24" "Minute t < 60" "Second t < 60"
    using assms(1) by (simp_all add: valid_Time_def)
  have m: "Month t < 100" "Day t < 100" "Hour t < 100" "Minute t < 100" "Second t < 100"
    using d daysIn_le_31 [of "Month t" "Year t"] by simp_all
  note fd = four_digits [OF y]
  note tm = two_digits [OF m(1)] and tday = two_digits [OF m(2)] and th = two_digits [OF m(3)]
    and ti = two_digits [OF m(4)] and ts = two_digits [OF m(5)]
  show ?thesis
    using fd tm tday th ti ts
    by (simp add: Format_explicit [OF assms] Let_def y_def [symmetric] wire_format_def
        isDigitChar_digit)
qed

section \<open>Decoding the formatted text\<close>

lemma plain_not_special: "plain c \<Longrightarrow> c \<noteq> CHR 0x22 \<and> c \<noteq> CHR 0x5C"
  by (auto simp: plain_def)

lemma unquote_plain:
  "list_all plain s \<Longrightarrow> unquote 0 (s @ CHR 0x22 # rest) = Some (s, rest)"
proof (induction s)
  case Nil
  then show ?case by simp
next
  case (Cons c s)
  then have "plain c" and ih: "unquote 0 (s @ CHR 0x22 # rest) = Some (s, rest)" by simp_all
  from \<open>plain c\<close> have "c \<noteq> CHR 0x22" "c \<noteq> CHR 0x5C" "\<not> (of_char c :: nat) < 32" "(of_char c :: nat) < 128"
    using plain_not_special by (auto simp: plain_def)
  then show ?case using ih by (simp add: emit_def)
qed

lemma json_Unmarshal_string_plain:
  "list_all plain s \<Longrightarrow> json_Unmarshal_string (CHR 0x22 # s @ [CHR 0x22]) = Inr s"
  by (simp add: json_Unmarshal_string_def isSpace_def unquote_plain)

lemma plain_digit: "n < 10 \<Longrightarrow> plain (digit n)"
  by (simp add: plain_def digit_code)

lemma plain_literals: "plain (CHR ''-'')" "plain (CHR ''T'')" "plain (CHR '':'')"
  by (simp_all add: plain_def)

lemma Format_plain:
  assumes "valid_Time t" "0 \<le> Year t" "Year t \<le> 9999"
  shows "list_all plain (Format t) \<and> length (Format t) = 19"
proof -
  define y where "y = nat (Year t)"
  have y: "y < 10000" using assms by (simp add: y_def)
  have d: "1 \<le> Month t" "Month t \<le> 12" "Day t \<le> daysIn (Month t) (Year t)"
    "Hour t < 24" "Minute t < 60" "Second t < 60"
    using assms(1) by (simp_all add: valid_Time_def)
  have m: "Month t < 100" "Day t < 100" "Hour t < 100" "Minute t < 100" "Second t < 100"
    using d daysIn_le_31 [of "Month t" "Year t"] by simp_all
  note fd = four_digits [OF y]
  note tm = two_digits [OF m(1)] and tday = two_digits [OF m(2)] and th = two_digits [OF m(3)]
    and ti = two_digits [OF m(4)] and ts = two_digits [OF m(5)]
  show ?thesis
    using fd tm tday th ti ts
    by (simp add: Format_explicit [OF assms] Let_def y_def [symmetric] plain_digit plain_literals)
qed

lemma Unmarshal_plain:
  "list_all plain s \<Longrightarrow>
   LangsmithTime_UnmarshalJSON (CHR 0x22 # s @ [CHR 0x22]) =
     (if length s < 19 then Panic
      else (case Parse (take 19 s) of Inl e \<Rightarrow> Err e | Inr t2 \<Rightarrow> Ok t2))"
  by (simp add: LangsmithTime_UnmarshalJSON_def json_Unmarshal_string_plain)

lemmas parse_defs = Parse_def bindE_simps parse_year_def isDigit_def isDigitChar_def atoi_def
  digitVal_def getnum_def parse_fraction_def daysIn_def isLeap_def

lemmas format_defs = Format_def appendInt_def utoa.simps digit_def replicate_123

section \<open>Timestamp fields\<close>

lemma encode_time_LangsmithTime:
  "is_LangsmithTime ty \<Longrightarrow> encode_time ty t = LangsmithTime_MarshalJSON t"
  by (induction ty) simp_all

lemma fields_of_type_LangsmithTime:
  "map (\<lambda>(s, k, ty). (s, k)) (filter (\<lambda>(s, k, ty). is_LangsmithTime ty) timestamp_fields) =
     [(''Experiment'', ''experiment_start_time''), (''Experiment'', ''experiment_end_time''),
      (''ExperimentScore'', ''created_at''), (''ExperimentScore'', ''modified_at''),
      (''Result'', ''start_time''), (''Result'', ''end_time''),
      (''Example'', ''created_at''), (''Run'', ''start_time''), (''Run'', ''end_time''),
      (''ComparativeExperimentRequest'', ''created_at''),
      (''ComparativeExperimentRequest'', ''modified_at''),
      (''ComparativeExperiment'', ''created_at''), (''ComparativeExperiment'', ''modified_at''),
      (''Feedback'', ''created_at''), (''Feedback'', ''modified_at''),
      (''TracerSessionRequest'', ''start_time''), (''TracerSessionRequest'', ''end_time''),
      (''TracerSessionUpdate'', ''end_time'')]"
  by (simp add: timestamp_fields_def)

lemma field_type_Feedback: "field_type ''Feedback'' ''created_at'' = Some LangsmithTime"
  by (simp add: field_type_def timestamp_fields_def)

lemma field_type_RunPayload: "field_type ''RunPayload'' ''start_time'' = Some Time_Time"
  by (simp add: field_type_def timestamp_fields_def)

lemma encode_time_Time:
  "\<not> is_LangsmithTime ty \<Longrightarrow> encode_time ty t = time_MarshalJSON t"
  by (induction ty) simp_all

lemma zone_suffix_nonempty:
  "(if z < 0 then ''-'' else ''+'') @ appendInt a 2 @ '':'' @ appendInt b 2 \<noteq> []"
  by simp

lemma zone_hours: "\<bar>x::int\<bar> < 86400 \<Longrightarrow> \<bar>x\<bar> div 3600 < 24"
  by (simp add: div_less_iff_less_mult)

lemma time_MarshalJSON_long:
  assumes "valid_Time t" "time_MarshalJSON t = Inr ([CHR 0x22] @ s @ [CHR 0x22])"
  shows "19 < length s \<and> \<not> wire_format s"
proof -
  from assms(2) have y: "0 \<le> Year t" "Year t \<le> 9999"
    by (auto simp: time_MarshalJSON_def split: if_splits)
  from assms(2) have s: "s = appendFormatRFC3339 t"
    by (auto simp: time_MarshalJSON_def split: if_splits)
  from Format_plain [OF assms(1) y] have l: "length (Format t) = 19" by simp
  have "19 < length (appendFormatRFC3339 t)"
    by (simp add: appendFormatRFC3339_def l Let_def)
  with s have "19 < length s" by simp
  moreover have "wire_format s \<Longrightarrow> length s = 19"
    by (auto simp: wire_format_def dest: list_all2_lengthD)
  ultimately show ?thesis by auto
qed

section \<open>Multipart writer\<close>

lemma WriteField_eq: "WriteField mw n v = Inr (mw\<lparr>parts := parts mw @ [FormField n v]\<rparr>)"
  by (simp add: WriteField_def part_Write_def)

lemma WriteFields_eq:
  "WriteFields mw n keys = Inr (mw\<lparr>parts := parts mw @ map (FormField n) keys\<rparr>)"
proof (induction keys arbitrary: mw)
  case Nil
  then show ?case by simp
next
  case (Cons k keys)
  then show ?case by (simp add: WriteField_eq bindE_def)
qed

lemma file_part_eq:
  "bindE (CreateFormFile mw n f) (\<lambda>mw'. part_Write mw' c) = Inr (mw\<lparr>parts := parts mw @ [FormFile n f c]\<rparr>)"
  by (simp add: CreateFormFile_def part_Write_def bindE_def)

lemma ToMultiPart_writer_eq:
  "ToMultiPart_writer b d =
     Inr \<lparr>boundary = b,
          parts = (if File d \<noteq> [] then [FormFile ''file'' ''dataset.csv'' (File d)] else []) @
                  map (FormField ''input_keys'') (InputKeys d) @
                  (if Name d \<noteq> [] then [FormField ''name'' (Name d)] else []) @
                  [FormField ''data_type'' (DataType d)] @
                  map (FormField ''output_keys'') (OutputKeys d) @
                  (if Description d \<noteq> [] then [FormField ''description'' (Description d)] else [])\<rparr>"
  by (simp add: ToMultiPart_writer_def file_part_eq WriteFields_eq WriteField_eq bindE_simps NewWriter_def)

lemma filter_map_FormField:
  "filter (\<lambda>p. part_name p = m) (map (FormField n) ks) = (if n = m then map (FormField n) ks else [])"
  by (induction ks) auto

lemma join_concat:
  "ps \<noteq> [] \<Longrightarrow> join sep (map f ps) @ sep = concat (map (\<lambda>p. f p @ sep) ps)"
proof (induction ps)
  case Nil
  then show ?case by simp
next
  case (Cons p ps)
  then show ?case by (cases ps) simp_all
qed

lemma Bytes_eq:
  "ps \<noteq> [] \<Longrightarrow>
   Bytes \<lparr>boundary = b, parts = ps\<rparr> =
     concat (map (\<lambda>p. ''--'' @ b @ [CHR 0x0D, CHR 0x0A] @ part_bytes p @ [CHR 0x0D, CHR 0x0A]) ps) @
     ''--'' @ b @ ''--'' @ [CHR 0x0D, CHR 0x0A]"
proof -
  assume ps: "ps \<noteq> []"
  have "Bytes \<lparr>boundary = b, parts = ps\<rparr> =
      (join [CHR 0x0D, CHR 0x0A] (map (\<lambda>p. ''--'' @ b @ [CHR 0x0D, CHR 0x0A] @ part_bytes p) ps) @
       [CHR 0x0D, CHR 0x0A]) @ ''--'' @ b @ ''--'' @ [CHR 0x0D, CHR 0x0A]"
    by (simp add: Bytes_def)
  also have "\<dots> = concat (map (\<lambda>p. (''--'' @ b @ [CHR 0x0D, CHR 0x0A] @ part_bytes p) @ [CHR 0x0D, CHR 0x0A]) ps) @
       ''--'' @ b @ ''--'' @ [CHR 0x0D, CHR 0x0A]"
    by (simp only: join_concat [OF ps])
  finally show ?thesis by simp
qed

section \<open>Requests of the operations\<close>

lemma ReadDataset_url:
  "map URL (requests (snd (ReadDataset w c ident))) =
     (if url_ok w (baseUrl c @ ''/'' @ ident) then [baseUrl c @ ''/'' @ ident] else [])"
proof -
  have f: "requests (snd (fetch w req)) = [req]" for req
    by (simp add: fetch_def split: sum.splits option.splits)
  show ?thesis by (simp add: ReadDataset_def NewRequest_def Header_Set_def f)
qed

lemma requests_decode_fetch: "requests (snd (decode unmarshal (fetch w req))) = [req]"
  by (simp add: decode_def fetch_def split: sum.splits option.splits)

lemma supported_strings: "supported (strings xs)"
  by (cases xs) (simp_all add: strings_def list_all_iff)

section \<open>The claims\<close>

subsection \<open>C1: the wire format of timestamp fields\<close>

text \<open>
  C1 says that every timestamp field of every entity (Run payloads, Dataset, Experiment,
  Feedback, sessions) is encoded to and decoded from \<open>YYYY-MM-DDTHH:MM:SS\<close>. The
  code declares the timestamp fields of \<open>RunPayload\<close>, \<open>SimplePayload\<close>, \<open>PostPayload\<close>,
  \<open>PatchPayload\<close> and \<open>Dataset\<close> as \<open>time.Time\<close>, which the standard library encodes in
  RFC 3339 form with a zone suffix, and a year past 9999 takes five digits.

  C1, as amended: for every timestamp field declared as \<open>LangsmithTime\<close> or
  \<open>*LangsmithTime\<close> and every time whose year lies in 0..9999, the field is encoded as
  the 19 characters \<open>YYYY-MM-DDTHH:MM:SS\<close> between double quotes, and the decoder reads
  exactly that text back as the same wall-clock reading at second precision, in UTC.
  The timestamp fields declared as \<open>time.Time\<close> or \<open>*time.Time\<close> (those of
  \<open>RunPayload\<close>, \<open>SimplePayload\<close>, \<open>PostPayload\<close>, \<open>PatchPayload\<close> and \<open>Dataset\<close>) are
  never encoded in that format: whenever their encoding succeeds, the text between
  the quotes is longer than 19 characters; for a year in 0..9999 and a zone offset
  under 24 hours it succeeds and gives the same 19 characters followed by the
  fraction of the second, if any, and a zone suffix, which is \<open>Z\<close> for offset zero.
\<close>

theorem timestamp_fields_encoding:
  assumes "field_type struct key = Some ty" "valid_Time t"
  shows "(is_LangsmithTime ty \<and> 0 \<le> Year t \<and> Year t \<le> 9999 \<longrightarrow>
            (\<exists>s. encode_timestamp_field struct key t = Some (Inr ([CHR 0x22] @ s @ [CHR 0x22])) \<and>
                 wire_format s \<and>
                 LangsmithTime_UnmarshalJSON ([CHR 0x22] @ s @ [CHR 0x22]) =
                   Ok (Truncate_Second (t\<lparr>ZoneOffset := 0\<rparr>)))) \<and>
         (\<not> is_LangsmithTime ty \<longrightarrow>
            (\<forall>s. encode_timestamp_field struct key t = Some (Inr ([CHR 0x22] @ s @ [CHR 0x22])) \<longrightarrow>
                 19 < length s \<and> \<not> wire_format s)) \<and>
         (\<not> is_LangsmithTime ty \<and> 0 \<le> Year t \<and> Year t \<le> 9999 \<and> \<bar>ZoneOffset t\<bar> < 86400 \<longrightarrow>
            (\<exists>z. encode_timestamp_field struct key t =
                   Some (Inr ([CHR 0x22] @ Format t @ appendNano (Nanosecond t) @ z @ [CHR 0x22])) \<and>
                 z \<noteq> [] \<and> (ZoneOffset t = 0 \<longrightarrow> z = ''Z''))) \<and>
         map (\<lambda>(s, k, ty). (s, k)) (filter (\<lambda>(s, k, ty). \<not> is_LangsmithTime ty) timestamp_fields) =
           [(''RunPayload'', ''start_time''), (''RunPayload'', ''end_time''),
            (''SimplePayload'', ''start_time''), (''SimplePayload'', ''end_time''),
            (''PostPayload'', ''start_time''), (''PatchPayload'', ''end_time''),
            (''Dataset'', ''created_at''), (''Dataset'', ''modified_at''),
            (''Dataset'', ''last_session_start_time'')]"
proof (intro conjI impI allI)
  assume a: "is_LangsmithTime ty \<and> 0 \<le> Year t \<and> Year t \<le> 9999"
  then have y: "0 \<le> Year t" "Year t \<le> 9999" and ls: "is_LangsmithTime ty" by simp_all
  have e: "encode_timestamp_field struct key t = Some (Inr ([CHR 0x22] @ Format t @ [CHR 0x22]))"
    using assms(1) ls
    by (simp add: encode_timestamp_field_def encode_time_LangsmithTime LangsmithTime_MarshalJSON_def)
  from Format_plain [OF assms(2) y] have p: "list_all plain (Format t)" and l: "length (Format t) = 19"
    by simp_all
  have "LangsmithTime_UnmarshalJSON ([CHR 0x22] @ Format t @ [CHR 0x22]) =
      Ok (Truncate_Second (t\<lparr>ZoneOffset := 0\<rparr>))"
    using Unmarshal_plain [OF p] l by (simp add: Parse_Format [OF assms(2) y] Truncate_Second_def)
  with e wire_format_Format [OF assms(2) y]
  show "\<exists>s. encode_timestamp_field struct key t = Some (Inr ([CHR 0x22] @ s @ [CHR 0x22])) \<and>
                 wire_format s \<and>
                 LangsmithTime_UnmarshalJSON ([CHR 0x22] @ s @ [CHR 0x22]) =
                   Ok (Truncate_Second (t\<lparr>ZoneOffset := 0\<rparr>))" by blast
next
  fix s
  assume n: "\<not> is_LangsmithTime ty"
    and e: "encode_timestamp_field struct key t = Some (Inr ([CHR 0x22] @ s @ [CHR 0x22]))"
  from e assms(1) n have "time_MarshalJSON t = Inr ([CHR 0x22] @ s @ [CHR 0x22])"
    by (simp add: encode_timestamp_field_def encode_time_Time)
  from time_MarshalJSON_long [OF assms(2) this] show "19 < length s" and "\<not> wire_format s"
    by simp_all
next
  assume a: "\<not> is_LangsmithTime ty \<and> 0 \<le> Year t \<and> Year t \<le> 9999 \<and> \<bar>ZoneOffset t\<bar> < 86400"
  with zone_hours have z: "\<bar>ZoneOffset t\<bar> div 3600 < 24" by blast
  from a assms(1) z
  show "\<exists>z. encode_timestamp_field struct key t =
          Some (Inr ([CHR 0x22] @ Format t @ appendNano (Nanosecond t) @ z @ [CHR 0x22])) \<and>
        z \<noteq> [] \<and> (ZoneOffset t = 0 \<longrightarrow> z = ''Z'')"
    by (auto simp add: encode_timestamp_field_def encode_time_Time time_MarshalJSON_def
        appendFormatRFC3339_def Let_def)
next
  show "map (\<lambda>(s, k, ty). (s, k)) (filter (\<lambda>(s, k, ty). \<not> is_LangsmithTime ty) timestamp_fields) =
           [(''RunPayload'', ''start_time''), (''RunPayload'', ''end_time''),
            (''SimplePayload'', ''start_time''), (''SimplePayload'', ''end_time''),
            (''PostPayload'', ''start_time''), (''PatchPayload'', ''end_time''),
            (''Dataset'', ''created_at''), (''Dataset'', ''modified_at''),
            (''Dataset'', ''last_session_start_time'')]"
    by (simp add: timestamp_fields_def)
qed

text \<open>
  C1, witness: \<open>created_at\<close> of \<open>Feedback\<close> and \<open>start_time\<close> of \<open>RunPayload\<close>, at
  2024-01-02 15:04:05.5 UTC.
\<close>

theorem timestamp_fields_encoding_witness:
  \<open>field_type ''Feedback'' ''created_at'' = Some LangsmithTime \<and>
   field_type ''RunPayload'' ''start_time'' = Some Time_Time \<and>
   valid_Time \<lparr>Year = 2024, Month = 1, Day = 2, Hour = 15, Minute = 4, Second = 5,
               Nanosecond = 500000000, ZoneOffset = 0\<rparr> \<and>
   (\<exists>s. encode_timestamp_field ''Feedback'' ''created_at''
          \<lparr>Year = 2024, Month = 1, Day = 2, Hour = 15, Minute = 4, Second = 5,
           Nanosecond = 500000000, ZoneOffset = 0\<rparr> = Some (Inr ([CHR 0x22] @ s @ [CHR 0x22])) \<and>
        wire_format s \<and>
        LangsmithTime_UnmarshalJSON ([CHR 0x22] @ s @ [CHR 0x22]) =
          Ok \<lparr>Year = 2024, Month = 1, Day = 2, Hour = 15, Minute = 4, Second = 5,
              Nanosecond = 0, ZoneOffset = 0\<rparr>) \<and>
   encode_timestamp_field ''RunPayload'' ''start_time''
     \<lparr>Year = 2024, Month = 1, Day = 2, Hour = 15, Minute = 4, Second = 5,
      Nanosecond = 500000000, ZoneOffset = 0\<rparr> = Some (Inr ''"2024-01-02T15:04:05.5Z"'') \<and>
   19 < length ''2024-01-02T15:04:05.5Z'' \<and> \<not> wire_format ''2024-01-02T15:04:05.5Z''\<close>
proof -
  let ?t = "\<lparr>Year = 2024, Month = 1, Day = 2, Hour = 15, Minute = 4, Second = 5,
             Nanosecond = 500000000, ZoneOffset = 0\<rparr>"
  have v: "valid_Time ?t" by (simp add: valid_Time_def daysIn_def)
  have r: \<open>encode_timestamp_field ''RunPayload'' ''start_time'' ?t =
      Some (Inr ([CHR 0x22] @ ''2024-01-02T15:04:05.5Z'' @ [CHR 0x22]))\<close>
    by (simp add: encode_timestamp_field_def field_type_RunPayload time_MarshalJSON_def
        appendFormatRFC3339_def appendNano_def format_defs)
  have y: "0 \<le> Year ?t" "Year ?t \<le> 9999" by simp_all
  from timestamp_fields_encoding [OF field_type_Feedback v] y
  have a: "\<exists>s. encode_timestamp_field ''Feedback'' ''created_at'' ?t =
               Some (Inr ([CHR 0x22] @ s @ [CHR 0x22])) \<and> wire_format s \<and>
             LangsmithTime_UnmarshalJSON ([CHR 0x22] @ s @ [CHR 0x22]) =
               Ok (Truncate_Second (?t\<lparr>ZoneOffset := 0\<rparr>))"
    by simp
  have b0: "19 < length s \<and> \<not> wire_format s"
    if "encode_timestamp_field ''RunPayload'' ''start_time'' ?t =
          Some (Inr ([CHR 0x22] @ s @ [CHR 0x22]))" for s
    using timestamp_fields_encoding [OF field_type_RunPayload v] that by simp
  have b: \<open>19 < length ''2024-01-02T15:04:05.5Z'' \<and> \<not> wire_format ''2024-01-02T15:04:05.5Z''\<close>
    by (rule b0 [OF r])
  from a have a': "\<exists>s. encode_timestamp_field ''Feedback'' ''created_at'' ?t =
               Some (Inr ([CHR 0x22] @ s @ [CHR 0x22])) \<and> wire_format s \<and>
             LangsmithTime_UnmarshalJSON ([CHR 0x22] @ s @ [CHR 0x22]) =
               Ok \<lparr>Year = 2024, Month = 1, Day = 2, Hour = 15, Minute = 4, Second = 5,
                   Nanosecond = 0, ZoneOffset = 0\<rparr>"
    by (simp add: Truncate_Second_def)
  from a' b r v show ?thesis
    by (simp only: field_type_Feedback field_type_RunPayload simp_thms append_Cons append_Nil)
qed

text \<open>
  C1, counterexample: \<open>start_time\<close> of \<open>RunPayload\<close> and \<open>created_at\<close> of \<open>Dataset\<close>
  are encoded with the suffix \<open>Z\<close>, which is not the fixed wire format; and
  \<open>created_at\<close> of \<open>Feedback\<close> in the year 10000 is encoded in 20 characters, which the
  decoder rejects. For \<open>start_time\<close> of \<open>RunPayload\<close>, the year 10000 and a zone
  offset of 24 hours make the encoding fail.
\<close>

theorem timestamp_wire_format_counterexample:
  \<open>valid_Time \<lparr>Year = 2024, Month = 1, Day = 2, Hour = 15, Minute = 4, Second = 5,
               Nanosecond = 0, ZoneOffset = 0\<rparr> \<and>
   encode_timestamp_field ''RunPayload'' ''start_time''
     \<lparr>Year = 2024, Month = 1, Day = 2, Hour = 15, Minute = 4, Second = 5,
      Nanosecond = 0, ZoneOffset = 0\<rparr> = Some (Inr ''"2024-01-02T15:04:05Z"'') \<and>
   encode_timestamp_field ''Dataset'' ''created_at''
     \<lparr>Year = 2024, Month = 1, Day = 2, Hour = 15, Minute = 4, Second = 5,
      Nanosecond = 0, ZoneOffset = 0\<rparr> = Some (Inr ''"2024-01-02T15:04:05Z"'') \<and>
   \<not> wire_format ''2024-01-02T15:04:05Z'' \<and>
   valid_Time \<lparr>Year = 10000, Month = 1, Day = 1, Hour = 0, Minute = 0, Second = 0,
               Nanosecond = 0, ZoneOffset = 0\<rparr> \<and>
   encode_timestamp_field ''Feedback'' ''created_at''
     \<lparr>Year = 10000, Month = 1, Day = 1, Hour = 0, Minute = 0, Second = 0,
      Nanosecond = 0, ZoneOffset = 0\<rparr> = Some (Inr ''"10000-01-01T00:00:00"'') \<and>
   \<not> wire_format ''10000-01-01T00:00:00'' \<and>
   LangsmithTime_UnmarshalJSON ''"10000-01-01T00:00:00"'' = Err ParseError \<and>
   encode_timestamp_field ''RunPayload'' ''start_time''
     \<lparr>Year = 10000, Month = 1, Day = 1, Hour = 0, Minute = 0, Second = 0,
      Nanosecond = 0, ZoneOffset = 0\<rparr> = Some (Inl TimeRangeError) \<and>
   valid_Time \<lparr>Year = 2024, Month = 1, Day = 2, Hour = 15, Minute = 4, Second = 5,
               Nanosecond = 0, ZoneOffset = 86400\<rparr> \<and>
   encode_timestamp_field ''RunPayload'' ''start_time''
     \<lparr>Year = 2024, Month = 1, Day = 2, Hour = 15, Minute = 4, Second = 5,
      Nanosecond = 0, ZoneOffset = 86400\<rparr> = Some (Inl TimeRangeError)\<close>
proof -
  have p: \<open>list_all plain ''10000-01-01T00:00:00''\<close>
    by (simp add: plain_def)
  have u: \<open>LangsmithTime_UnmarshalJSON ''"10000-01-01T00:00:00"'' = Err ParseError\<close>
    using Unmarshal_plain [OF p] by (simp add: parse_defs)
  show ?thesis
    by (simp add: u valid_Time_def daysIn_def encode_timestamp_field_def field_type_def
        timestamp_fields_def time_MarshalJSON_def appendFormatRFC3339_def appendNano_def
        LangsmithTime_MarshalJSON_def format_defs wire_format_def)
qed

subsection \<open>C2: the URL an operation targets\<close>

text \<open>
  C2 says that every operation sends its request to the base URL captured at
  construction plus a path. With \<open>LANGSMITH_URL\<close> set, the client holds the override,
  and \<open>GetExamples\<close> and \<open>QueryRuns\<close> still send their request to the constant
  \<open>BASE_URL\<close> (as \<open>CreateExample\<close>, \<open>CreateExamples\<close>, \<open>CreateFeedback\<close>,
  \<open>CreateTracerSession\<close> and \<open>UpdateTracerSession\<close> do).
\<close>

theorem base_url_ignored:
  \<open>NewDatasetClient [''LANGSMITH_API_KEY'' \<mapsto> ''key'',
                      ''LANGSMITH_URL'' \<mapsto> ''http://localhost:1984/api/v1''] =
     Inr \<lparr>APIKey = ''key'', baseUrl = ''http://localhost:1984/api/v1/datasets''\<rparr> \<and>
   requests (snd (GetExamples unmarshal (mock_world 200 ''[]'')
       \<lparr>APIKey = ''key'', baseUrl = ''http://localhost:1984/api/v1/datasets''\<rparr> ''ds-1'' 0)) =
     [\<lparr>Method = ''GET'',
       URL = ''https://api.smith.langchain.com/api/v1/examples?dataset=ds-1&offset=0'',
       Header = [(''x-api-key'', ''key'')], Body = None\<rparr>] \<and>
   map URL (requests (snd (QueryRuns unmarshal (mock_world 200 ''{}'')
       \<lparr>APIKey = ''key'', baseUrl = ''http://localhost:1984/api/v1/datasets''\<rparr>
       experimentIds isRoot (Some queryParams)))) =
     [''https://api.smith.langchain.com/api/v1/runs/query'']\<close>
  by (simp add: NewDatasetClient_def Getenv_def GetExamples_def QueryRuns_def NewRequest_def
      Header_Set_def requests_decode_fetch mock_world_def BASE_URL_def itoa_def utoa.simps
      digit_def json_Marshal_def supported_strings)

subsection \<open>C3: encoding then decoding a time\<close>

text \<open>
  C3 says that for every time value, encoding it as a \<open>LangsmithTime\<close> and decoding
  the bytes succeeds and returns the original truncated to second precision.

  C3, as amended: for every time value whose year (read in its own location) lies in
  0..9999, encoding and then decoding succeeds and returns the original's wall-clock
  reading truncated to second precision, in UTC; this is the original truncated to
  second precision when the original's zone offset is zero.
\<close>

theorem LangsmithTime_roundtrip:
  assumes "valid_Time t" "0 \<le> Year t" "Year t \<le> 9999"
  shows "\<exists>b. LangsmithTime_MarshalJSON t = Inr b \<and>
             LangsmithTime_UnmarshalJSON b = Ok (Truncate_Second (t\<lparr>ZoneOffset := 0\<rparr>)) \<and>
             (ZoneOffset t = 0 \<longrightarrow> LangsmithTime_UnmarshalJSON b = Ok (Truncate_Second t))"
proof -
  from Format_plain [OF assms] have p: "list_all plain (Format t)" and l: "length (Format t) = 19"
    by simp_all
  have u: "LangsmithTime_UnmarshalJSON (CHR 0x22 # Format t @ [CHR 0x22]) =
      Ok (Truncate_Second (t\<lparr>ZoneOffset := 0\<rparr>))"
    by (simp add: LangsmithTime_UnmarshalJSON_def json_Unmarshal_string_plain [OF p] l
        Parse_Format [OF assms] Truncate_Second_def)
  have z: "ZoneOffset t = 0 \<longrightarrow> t\<lparr>ZoneOffset := 0\<rparr> = t"
    by (cases t) simp
  show ?thesis
  proof (intro exI conjI)
    show "LangsmithTime_MarshalJSON t = Inr (CHR 0x22 # Format t @ [CHR 0x22])"
      by (simp add: LangsmithTime_MarshalJSON_def)
    show "LangsmithTime_UnmarshalJSON (CHR 0x22 # Format t @ [CHR 0x22]) =
        Ok (Truncate_Second (t\<lparr>ZoneOffset := 0\<rparr>))"
      by (rule u)
    show "ZoneOffset t = 0 \<longrightarrow>
        LangsmithTime_UnmarshalJSON (CHR 0x22 # Format t @ [CHR 0x22]) = Ok (Truncate_Second t)"
    proof
      assume "ZoneOffset t = 0"
      with z have "t\<lparr>ZoneOffset := 0\<rparr> = t" by simp
      with u show "LangsmithTime_UnmarshalJSON (CHR 0x22 # Format t @ [CHR 0x22]) =
          Ok (Truncate_Second t)" by simp
    qed
  qed
qed

text \<open>
  C3, witness: 2024-02-29 15:04:05.123456789 UTC.
\<close>

theorem LangsmithTime_roundtrip_witness:
  "valid_Time \<lparr>Year = 2024, Month = 2, Day = 29, Hour = 15, Minute = 4, Second = 5,
               Nanosecond = 123456789, ZoneOffset = 0\<rparr> \<and>
   (\<exists>b. LangsmithTime_MarshalJSON \<lparr>Year = 2024, Month = 2, Day = 29, Hour = 15, Minute = 4,
            Second = 5, Nanosecond = 123456789, ZoneOffset = 0\<rparr> = Inr b \<and>
        LangsmithTime_UnmarshalJSON b =
          Ok \<lparr>Year = 2024, Month = 2, Day = 29, Hour = 15, Minute = 4, Second = 5,
              Nanosecond = 0, ZoneOffset = 0\<rparr>)"
  using LangsmithTime_roundtrip [of "\<lparr>Year = 2024, Month = 2, Day = 29, Hour = 15, Minute = 4,
      Second = 5, Nanosecond = 123456789, ZoneOffset = 0\<rparr>"]
  by (simp add: valid_Time_def daysIn_def isLeap_def Truncate_Second_def)

text \<open>
  C3, counterexample: the year 10000 is formatted with five digits, so the first 19
  bytes cut the seconds and decoding fails; and a time at offset +02:00 is decoded
  to an instant two hours later than the original.
\<close>

theorem LangsmithTime_roundtrip_counterexample:
  \<open>valid_Time \<lparr>Year = 10000, Month = 1, Day = 1, Hour = 0, Minute = 0, Second = 0,
               Nanosecond = 0, ZoneOffset = 0\<rparr> \<and>
   LangsmithTime_MarshalJSON \<lparr>Year = 10000, Month = 1, Day = 1, Hour = 0, Minute = 0,
      Second = 0, Nanosecond = 0, ZoneOffset = 0\<rparr> = Inr ''"10000-01-01T00:00:00"'' \<and>
   LangsmithTime_UnmarshalJSON ''"10000-01-01T00:00:00"'' = Err ParseError \<and>
   valid_Time \<lparr>Year = 2024, Month = 1, Day = 2, Hour = 15, Minute = 4, Second = 5,
               Nanosecond = 0, ZoneOffset = 7200\<rparr> \<and>
   LangsmithTime_MarshalJSON \<lparr>Year = 2024, Month = 1, Day = 2, Hour = 15, Minute = 4,
      Second = 5, Nanosecond = 0, ZoneOffset = 7200\<rparr> = Inr ''"2024-01-02T15:04:05"'' \<and>
   LangsmithTime_UnmarshalJSON ''"2024-01-02T15:04:05"'' =
     Ok \<lparr>Year = 2024, Month = 1, Day = 2, Hour = 15, Minute = 4, Second = 5,
         Nanosecond = 0, ZoneOffset = 0\<rparr> \<and>
   \<not> Equal \<lparr>Year = 2024, Month = 1, Day = 2, Hour = 15, Minute = 4, Second = 5,
             Nanosecond = 0, ZoneOffset = 0\<rparr>
     (Truncate_Second \<lparr>Year = 2024, Month = 1, Day = 2, Hour = 15, Minute = 4, Second = 5,
             Nanosecond = 0, ZoneOffset = 7200\<rparr>)\<close>
proof -
  have p1: \<open>list_all plain ''10000-01-01T00:00:00''\<close> and p2: \<open>list_all plain ''2024-01-02T15:04:05''\<close>
    by (simp_all add: plain_def)
  have u1: \<open>LangsmithTime_UnmarshalJSON ''"10000-01-01T00:00:00"'' = Err ParseError\<close>
    using Unmarshal_plain [OF p1] by (simp add: parse_defs)
  have u2: \<open>LangsmithTime_UnmarshalJSON ''"2024-01-02T15:04:05"'' =
     Ok \<lparr>Year = 2024, Month = 1, Day = 2, Hour = 15, Minute = 4, Second = 5,
         Nanosecond = 0, ZoneOffset = 0\<rparr>\<close>
    using Unmarshal_plain [OF p2] by (simp add: parse_defs)
  show ?thesis
    by (simp add: u1 u2 valid_Time_def daysIn_def LangsmithTime_MarshalJSON_def format_defs
        Equal_def Unix_def Truncate_Second_def)
qed

subsection \<open>C4: decoding a short string\<close>

text \<open>
  C4 says that for every JSON string input the decoder truncates the input to its first
  19 characters and returns a value or an error rather than crashing. On a JSON
  string of fewer than 19 bytes (and on \<open>null\<close>), the slice expression \<open>s[:19]\<close>
  panics.
\<close>

theorem UnmarshalJSON_short_string_panics:
  \<open>LangsmithTime_UnmarshalJSON ''"2024-01-02"'' = Panic \<and>
   LangsmithTime_UnmarshalJSON ''""'' = Panic \<and>
   LangsmithTime_UnmarshalJSON ''null'' = Panic\<close>
proof -
  have \<open>list_all plain ''2024-01-02''\<close> \<open>list_all plain ''''\<close>
    by (simp_all add: plain_def)
  from this [THEN Unmarshal_plain] show ?thesis
    by (simp add: LangsmithTime_UnmarshalJSON_def json_Unmarshal_string_def isSpace_def)
qed

subsection \<open>C5: omitempty on timestamp fields\<close>

text \<open>
  C5 says that an absent or empty optional field is omitted from the encoded JSON, in
  particular the optional timestamp fields of \<open>TracerSessionRequest\<close>. A
  \<open>LangsmithTime\<close> is a struct, which omitempty never omits: the zero request is
  encoded with both of its timestamps.
\<close>

theorem TracerSessionRequest_zero_times_encoded:
  \<open>Marshal_TracerSessionRequest
     \<lparr>TSR_ID = [], TSR_StartTime = zero_Time, TSR_EndTime = zero_Time, TSR_Extra = None,
      TSR_Name = [], TSR_Description = [], TSR_DefaultDatasetID = [],
      TSR_ReferenceDatasetID = [], TSR_TraceTier = []\<rparr> =
     Inr ''{"start_time":"0001-01-01T00:00:00","end_time":"0001-01-01T00:00:00"}''\<close>
  by (simp add: Marshal_TracerSessionRequest_def TracerSessionRequest_fields_def encode_struct_def
      bindE_simps LangsmithTime_MarshalJSON_def zero_Time_def format_defs)

subsection \<open>C6: output of the operations\<close>

text \<open>
  C6 says that no public operation produces diagnostic output of its own. The first
  thing \<open>CreateExample\<close> does after encoding is to print the encoded example, and
  \<open>DownloadDatasetCsv\<close> prints the request (with its API key header) before sending
  it.
\<close>

theorem operations_print:
  \<open>(\<exists>evs. snd (CreateExample json_Marshal w d (GMap [(''id'', GString ''ex-1'')])) =
            Println ''{"id":"ex-1"}'' # evs) \<and>
   (\<exists>evs. snd (DownloadDatasetCsv (mock_world 200 body) d ''ds-1'') =
            PrintlnRequest \<lparr>Method = ''GET'', URL = baseUrl d @ ''/ds-1/csv'',
                            Header = [(''x-api-key'', APIKey d)], Body = None\<rparr> # evs)\<close>
proof -
  have r: \<open>json_Marshal (GMap [(''id'', GString ''ex-1'')]) = Inr ''{"id":"ex-1"}''\<close>
    by (simp add: json_Marshal_def appendString_def)
  show ?thesis
    by (simp add: CreateExample_def DownloadDatasetCsv_def r NewRequest_def Header_Set_def
        mock_world_def Let_def)
qed

subsection \<open>C7: constructing the client\<close>

text \<open>
  C7: constructing the client when no API key is set (\<open>LANGSMITH_API_KEY\<close> unset or
  empty, which \<open>os.Getenv\<close> does not tell apart) returns an error and no client; when
  an API key is set, construction succeeds, the client holds the key, and its base
  URL is the override \<open>LANGSMITH_URL\<close> when present (set and not empty), otherwise the
  default endpoint. The client keeps the base URL with the path prefix \<open>/datasets\<close> of
  its dataset operations appended, so that the URL \<open>ReadDataset\<close> requests is the
  override or the default endpoint followed by \<open>/datasets/{id}\<close>.
\<close>

theorem NewDatasetClient_result:
  "((e ''LANGSMITH_API_KEY'' = None \<or> e ''LANGSMITH_API_KEY'' = Some []) \<longrightarrow>
      NewDatasetClient e = Inl (ErrorString ''langsmith api key is required'')) \<and>
   (\<forall>k. e ''LANGSMITH_API_KEY'' = Some k \<and> k \<noteq> [] \<longrightarrow>
      (let root = (case e ''LANGSMITH_URL'' of
                     None \<Rightarrow> BASE_URL
                   | Some u \<Rightarrow> if u = [] then BASE_URL else u)
       in NewDatasetClient e = Inr \<lparr>APIKey = k, baseUrl = root @ ''/datasets''\<rparr> \<and>
          (\<forall>w ident.
             map URL (requests (snd (ReadDataset w \<lparr>APIKey = k, baseUrl = root @ ''/datasets''\<rparr> ident))) =
               (if url_ok w (root @ ''/datasets/'' @ ident) then [root @ ''/datasets/'' @ ident]
                else []))))"
  by (auto simp: NewDatasetClient_def Getenv_def ReadDataset_url Let_def split: option.splits)

text \<open>
  C7, witness: no variable set; an empty key; the key alone; the key and the override.
\<close>

theorem NewDatasetClient_result_witness:
  "NewDatasetClient Map.empty = Inl (ErrorString ''langsmith api key is required'') \<and>
   NewDatasetClient [''LANGSMITH_API_KEY'' \<mapsto> ''''] =
     Inl (ErrorString ''langsmith api key is required'') \<and>
   NewDatasetClient [''LANGSMITH_API_KEY'' \<mapsto> ''key''] =
     Inr \<lparr>APIKey = ''key'', baseUrl = ''https://api.smith.langchain.com/api/v1/datasets''\<rparr> \<and>
   NewDatasetClient [''LANGSMITH_API_KEY'' \<mapsto> ''key'', ''LANGSMITH_URL'' \<mapsto> ''http://localhost:1984/api/v1''] =
     Inr \<lparr>APIKey = ''key'', baseUrl = ''http://localhost:1984/api/v1/datasets''\<rparr> \<and>
   map URL (requests (snd (ReadDataset (mock_world 200 ''{}'')
       \<lparr>APIKey = ''key'', baseUrl = ''http://localhost:1984/api/v1/datasets''\<rparr> ''ds-1''))) =
     [''http://localhost:1984/api/v1/datasets/ds-1'']"
  using NewDatasetClient_result [of Map.empty]
    NewDatasetClient_result [of "[''LANGSMITH_API_KEY'' \<mapsto> '''']"]
    NewDatasetClient_result [of "[''LANGSMITH_API_KEY'' \<mapsto> ''key'']"]
    NewDatasetClient_result [of "[''LANGSMITH_API_KEY'' \<mapsto> ''key'', ''LANGSMITH_URL'' \<mapsto> ''http://localhost:1984/api/v1'']"]
  by (simp add: BASE_URL_def Let_def mock_world_def)

subsection \<open>C8: a serialization error sends no request\<close>

text \<open>
  C8: for every operation that serializes a request object with \<open>json.Marshal\<close>, if
  the serialization fails, its error is returned and no HTTP request is sent (the
  operation causes no event at all).
\<close>

theorem marshal_error_sends_nothing:
  assumes "marshal x = Inl e"
  shows "CreateDataset marshal w d x = (Err e, []) \<and>
         UploadExperiment marshal w d x = (Err e, []) \<and>
         CreateExample marshal w d x = (Err e, []) \<and>
         CreateExamples marshal w d x = (Err e, []) \<and>
         CreateComparativeExperiment marshal w d x = (Err e, []) \<and>
         CreateFeedback marshal w d x = (Err e, []) \<and>
         CreateTracerSession marshal w d x = (Err e, []) \<and>
         UpdateTracerSession marshal w d sessionId x = (Err e, [])"
  using assms
  by (simp add: CreateDataset_def UploadExperiment_def CreateExample_def CreateExamples_def
      CreateComparativeExperiment_def CreateFeedback_def CreateTracerSession_def
      UpdateTracerSession_def)

text \<open>
  C8, witness: a request object that holds a channel, which \<open>json.Marshal\<close> refuses.
\<close>

theorem marshal_error_sends_nothing_witness:
  "json_Marshal (GMap [(''extra'', GChan)]) = Inl UnsupportedTypeError \<and>
   CreateDataset json_Marshal (mock_world 201 []) \<lparr>APIKey = ''key'', baseUrl = ''http://localhost/datasets''\<rparr>
     (GMap [(''extra'', GChan)]) = (Err UnsupportedTypeError, []) \<and>
   CreateFeedback json_Marshal (mock_world 201 []) \<lparr>APIKey = ''key'', baseUrl = ''http://localhost/datasets''\<rparr>
     (GMap [(''extra'', GChan)]) = (Err UnsupportedTypeError, []) \<and>
   UploadExperiment json_Marshal (mock_world 201 []) \<lparr>APIKey = ''key'', baseUrl = ''http://localhost/datasets''\<rparr>
     (GMap [(''extra'', GChan)]) = (Err UnsupportedTypeError, [])"
proof -
  have m: "json_Marshal (GMap [(''extra'', GChan)]) = Inl UnsupportedTypeError"
    by (simp add: json_Marshal_def)
  from marshal_error_sends_nothing [of json_Marshal "GMap [(''extra'', GChan)]" UnsupportedTypeError,
      OF m] m
  show ?thesis by simp
qed

subsection \<open>C9: the input_keys fields of the multipart body\<close>

text \<open>
  C9: for every \<open>DatasetCSV\<close> (with \<open>InputKeys\<close> empty or not), \<open>ToMultiPart\<close>
  succeeds and the multipart body it returns, which \<open>UploadCSV\<close> posts, is, byte for
  byte: the file part when \<open>File\<close> is not empty; then one form field named
  \<open>input_keys\<close> per entry of \<open>InputKeys\<close>, in the order of the list, each holding its
  entry; then the fields \<open>name\<close> (when not empty), \<open>data_type\<close>, \<open>output_keys\<close> (one
  per entry) and \<open>description\<close> (when not empty); then the closing boundary. The
  parts named \<open>input_keys\<close> are exactly those of \<open>InputKeys\<close>.
\<close>

theorem ToMultiPart_input_keys:
  \<open>let crlf = [CHR 0x0D, CHR 0x0A];
       field = (\<lambda>n v. ''--'' @ b @ crlf @ ''Content-Disposition: form-data; name="'' @ n @ ''"'' @
                      crlf @ crlf @ v @ crlf);
       body =
         (if File d \<noteq> [] then
            ''--'' @ b @ crlf @
            ''Content-Disposition: form-data; name="file"; filename="dataset.csv"'' @ crlf @
            ''Content-Type: application/octet-stream'' @ crlf @ crlf @ File d @ crlf
          else []) @
         concat (map (field ''input_keys'') (InputKeys d)) @
         (if Name d \<noteq> [] then field ''name'' (Name d) else []) @
         field ''data_type'' (DataType d) @
         concat (map (field ''output_keys'') (OutputKeys d)) @
         (if Description d \<noteq> [] then field ''description'' (Description d) else []) @
         ''--'' @ b @ ''--'' @ crlf
   in ToMultiPart b d = Inr (body, ''multipart/form-data; boundary='' @ b) \<and>
      UploadCSV b w c (Some d) =
        PostForm w c (baseUrl c @ ''/upload'') body (''multipart/form-data; boundary='' @ b) \<and>
      (\<exists>mw. ToMultiPart_writer b d = Inr mw \<and> Bytes mw = body \<and>
            filter (\<lambda>p. part_name p = ''input_keys'') (parts mw) =
              map (FormField ''input_keys'') (InputKeys d))\<close>
  by (simp add: Let_def ToMultiPart_writer_eq ToMultiPart_def UploadCSV_def bindE_simps
      filter_map_FormField Bytes_eq FormDataContentType_def part_bytes_def o_def)

subsection \<open>C10: the body of GetExamplesWithRuns\<close>

text \<open>
  C10: for every client and every \<open>datasetId\<close>, the request \<open>GetExamplesWithRuns\<close>
  sends has the same body, the \<open>session_ids\<close> list with the one hardcoded value; no
  argument of the operation reaches the body.
\<close>

theorem GetExamplesWithRuns_request:
  \<open>requests (snd (GetExamplesWithRuns unmarshal w d datasetId)) =
     (if url_ok w (baseUrl d @ ''/'' @ datasetId @ ''/runs'') then
        [\<lparr>Method = ''POST'', URL = baseUrl d @ ''/'' @ datasetId @ ''/runs'',
          Header = [(''x-api-key'', APIKey d)],
          Body = Some ''{"session_ids":["58a7c5a2-c14e-42dc-936a-3af8e84777fa"]}''\<rparr>]
      else [])\<close>
proof -
  have r: \<open>json_Marshal (GMap [(''session_ids'', strings (Some [''58a7c5a2-c14e-42dc-936a-3af8e84777fa'']))]) =
      Inr ''{"session_ids":["58a7c5a2-c14e-42dc-936a-3af8e84777fa"]}''\<close>
    by (simp add: json_Marshal_def strings_def appendString_def)
  have f: "requests (snd (decode unmarshal (fetch w req))) = [req]" for req
    by (simp add: decode_def fetch_def split: sum.splits option.splits)
  show ?thesis
    by (simp add: GetExamplesWithRuns_def r NewRequest_def Header_Set_def f)
qed

end
